theory Spec2Isabelle
  imports Complex_Main
begin

section \<open>Data model (src/types)\<close>

text \<open>
  TypeScript \<open>number\<close> is modelled as \<open>real\<close> where it carries a coordinate, a
  fraction or a distance that is only added up, as \<open>js_number\<close> where a distance is
  compared, and as \<open>int\<close> where it carries an index, a size or a timestamp. A \<open>Position\<close> is the tuple \<open>[lon, lat]\<close> or \<open>[lon, lat, altitude]\<close>.
\<close>

datatype position = Position2 real real | Position3 real real real

record coordinate =
  longitude :: real
  latitude :: real

text \<open>
  A distance computed in double arithmetic is a finite number, \<open>NaN\<close> or \<open>Infinity\<close>.
  \<open>js_less\<close> and \<open>js_greater\<close> are the operators \<open><\<close> and \<open>>\<close> on such values: a
  comparison with \<open>NaN\<close> is false.
\<close>

datatype js_number = Number real | NaN | Infinity

fun js_less :: "js_number \<Rightarrow> js_number \<Rightarrow> bool" where
  "js_less (Number x) (Number y) = (x < y)"
| "js_less (Number x) Infinity = True"
| "js_less a b = False"

definition js_greater :: "js_number \<Rightarrow> js_number \<Rightarrow> bool" where
  "js_greater a b = js_less b a"

record nearest_point_result =
  np_point :: coordinate
  np_distance :: js_number
  np_segmentIndex :: int
  np_segmentFraction :: real

text \<open>
  Faults raised by the code: the \<open>Error('RoutePlanner has been disposed')\<close> of
  \<open>ensureNotDisposed\<close>, and the \<open>TypeError\<close> JavaScript raises when an element of an
  \<open>undefined\<close> array slot is read.
\<close>

datatype error = Disposed | TypeError

section \<open>Geometry engine (src/geo)\<close>

definition EARTH_RADIUS_METERS :: real where
  "EARTH_RADIUS_METERS = 63710088 / 10"

definition toRadians :: "real \<Rightarrow> real" where
  "toRadians degrees = degrees * (pi / 180)"

text \<open>\<open>Math.atan2(y, x)\<close> on real arguments.\<close>

definition atan2 :: "real \<Rightarrow> real \<Rightarrow> real" where
  "atan2 y x =
     (if 0 < x then arctan (y / x)
      else if x < 0 then (if 0 \<le> y then arctan (y / x) + pi else arctan (y / x) - pi)
      else if 0 < y then pi / 2
      else if y < 0 then - (pi / 2)
      else 0)"

definition calculateDistance :: "coordinate \<Rightarrow> coordinate \<Rightarrow> real" where
  "calculateDistance from_c to_c =
     (let lat1 = toRadians (latitude from_c);
          lat2 = toRadians (latitude to_c);
          deltaLat = toRadians (latitude to_c - latitude from_c);
          deltaLng = toRadians (longitude to_c - longitude from_c);
          a = sin (deltaLat / 2) * sin (deltaLat / 2)
              + cos lat1 * cos lat2 * sin (deltaLng / 2) * sin (deltaLng / 2);
          c = 2 * atan2 (sqrt a) (sqrt (1 - a))
      in EARTH_RADIUS_METERS * c)"

fun positionToCoordinate :: "position \<Rightarrow> coordinate" where
  "positionToCoordinate (Position2 lon lat) = \<lparr>longitude = lon, latitude = lat\<rparr>"
| "positionToCoordinate (Position3 lon lat alt) = \<lparr>longitude = lon, latitude = lat\<rparr>"

text \<open>The \<open>for\<close> loop of \<open>calculateLineLength\<close>, from index \<open>i\<close> on.\<close>

function calculateLineLength_loop :: "position list \<Rightarrow> nat \<Rightarrow> real \<Rightarrow> real" where
  "calculateLineLength_loop coordinates i totalLength =
     (if i < length coordinates - 1
      then calculateLineLength_loop coordinates (i + 1)
             (totalLength + calculateDistance (positionToCoordinate (coordinates ! i))
                                              (positionToCoordinate (coordinates ! (i + 1))))
      else totalLength)"
  by pat_completeness auto
termination
  by (relation "measure (\<lambda>(cs, i, t). length cs - 1 - i)") auto

declare calculateLineLength_loop.simps [simp del]

definition calculateLineLength :: "position list \<Rightarrow> real" where
  "calculateLineLength coordinates =
     (if length coordinates < 2 then 0
      else calculateLineLength_loop coordinates 0 0)"

text \<open>The second \<open>for\<close> loop of \<open>calculateRemainingLength\<close>, from index \<open>i\<close> on.\<close>

function calculateRemainingLength_loop :: "position list \<Rightarrow> nat \<Rightarrow> real \<Rightarrow> real" where
  "calculateRemainingLength_loop coordinates i totalLength =
     (if i < length coordinates - 1
      then calculateRemainingLength_loop coordinates (i + 1)
             (totalLength + calculateDistance (positionToCoordinate (coordinates ! i))
                                              (positionToCoordinate (coordinates ! (i + 1))))
      else totalLength)"
  by pat_completeness auto
termination
  by (relation "measure (\<lambda>(cs, i, t). length cs - 1 - i)") auto

declare calculateRemainingLength_loop.simps [simp del]

text \<open>
  \<open>fromIndex\<close> is any integer. Past the guard a negative \<open>fromIndex\<close> reads
  \<open>coordinates[fromIndex]\<close>, which is \<open>undefined\<close>, and \<open>positionToCoordinate\<close> then
  raises a \<open>TypeError\<close>.
\<close>

definition calculateRemainingLength :: "position list \<Rightarrow> int \<Rightarrow> real \<Rightarrow> error + real" where
  "calculateRemainingLength coordinates fromIndex fromFraction =
     (if length coordinates < 2 \<or> fromIndex \<ge> int (length coordinates) - 1 then Inr 0
      else if fromIndex < 0 then Inl TypeError
      else
        let segmentStart = positionToCoordinate (coordinates ! nat fromIndex);
            segmentEnd = positionToCoordinate (coordinates ! (nat fromIndex + 1));
            segmentLength = calculateDistance segmentStart segmentEnd;
            totalLength = 0 + segmentLength * (1 - fromFraction)
        in Inr (calculateRemainingLength_loop coordinates (nat fromIndex + 1) totalLength))"

text \<open>
  The haversine of \<open>calculateDistance\<close> is rounded at every step when it runs, and for
  some pairs of points (near-antipodal ones) the rounded \<open>a\<close> is above 1 and the result
  is \<open>NaN\<close>. The rounding is not modelled. The nearest-point functions, whose control
  flow depends on comparing distances, take the distance function as it behaves in
  double arithmetic as their first argument \<open>distance\<close>: what is proved of them holds
  whatever it returns. \<open>exact_distance\<close> is the distance without rounding.
\<close>

definition exact_distance :: "coordinate \<Rightarrow> coordinate \<Rightarrow> js_number" where
  "exact_distance from_c to_c = Number (calculateDistance from_c to_c)"

record segment_result =
  sr_point :: coordinate
  sr_distance :: js_number
  sr_fraction :: real

definition nearestPointOnSegment ::
  "(coordinate \<Rightarrow> coordinate \<Rightarrow> js_number)
     \<Rightarrow> coordinate \<Rightarrow> coordinate \<Rightarrow> coordinate \<Rightarrow> segment_result" where
  "nearestPointOnSegment distance point segStart segEnd =
     (let dx = longitude segEnd - longitude segStart;
          dy = latitude segEnd - latitude segStart;
          lengthSquared = dx * dx + dy * dy
      in if lengthSquared = 0
         then \<lparr>sr_point = segStart, sr_distance = distance point segStart, sr_fraction = 0\<rparr>
         else
           let t = max 0 (min 1 (((longitude point - longitude segStart) * dx
                                  + (latitude point - latitude segStart) * dy) / lengthSquared));
               projected = \<lparr>longitude = longitude segStart + t * dx,
                            latitude = latitude segStart + t * dy\<rparr>
           in \<lparr>sr_point = projected, sr_distance = distance point projected,
               sr_fraction = t\<rparr>)"

text \<open>
  The loop of \<open>findNearestPointOnLine\<close>, from index \<open>i\<close> on, over its four variables
  \<open>minDistance\<close>, \<open>nearestPoint\<close>, \<open>segmentIndex\<close> and \<open>segmentFraction\<close>.
\<close>

function findNearestPointOnLine_loop ::
  "(coordinate \<Rightarrow> coordinate \<Rightarrow> js_number) \<Rightarrow> coordinate \<Rightarrow> position list \<Rightarrow> nat
     \<Rightarrow> js_number \<times> coordinate option \<times> int \<times> real
     \<Rightarrow> js_number \<times> coordinate option \<times> int \<times> real" where
  "findNearestPointOnLine_loop distance point lineCoordinates i
       (minDistance, nearestPoint, segmentIndex, segmentFraction) =
     (if i < length lineCoordinates - 1
      then
        let start = positionToCoordinate (lineCoordinates ! i);
            end_c = positionToCoordinate (lineCoordinates ! (i + 1));
            result = nearestPointOnSegment distance point start end_c
        in if js_less (sr_distance result) minDistance
           then findNearestPointOnLine_loop distance point lineCoordinates (i + 1)
                  (sr_distance result, Some (sr_point result), int i, sr_fraction result)
           else findNearestPointOnLine_loop distance point lineCoordinates (i + 1)
                  (minDistance, nearestPoint, segmentIndex, segmentFraction)
      else (minDistance, nearestPoint, segmentIndex, segmentFraction))"
  by pat_completeness auto
termination
  by (relation "measure (\<lambda>(d, p, cs, i, st). length cs - 1 - i)") auto

declare findNearestPointOnLine_loop.simps [simp del]

text \<open>The variables start as \<open>Infinity\<close>, \<open>null\<close>, 0 and 0.\<close>

definition findNearestPointOnLine ::
  "(coordinate \<Rightarrow> coordinate \<Rightarrow> js_number) \<Rightarrow> coordinate \<Rightarrow> position list
     \<Rightarrow> nearest_point_result option" where
  "findNearestPointOnLine distance point lineCoordinates =
     (if length lineCoordinates < 2 then None
      else
        let (minDistance, nearestPoint, segmentIndex, segmentFraction) =
              findNearestPointOnLine_loop distance point lineCoordinates 0 (Infinity, None, 0, 0)
        in case nearestPoint of
             None \<Rightarrow> None
           | Some nearest \<Rightarrow>
               Some \<lparr>np_point = nearest, np_distance = minDistance,
                     np_segmentIndex = segmentIndex,
                     np_segmentFraction = segmentFraction\<rparr>)"

text \<open>\<open>thresholdMeters\<close> is optional and defaults to 50.\<close>

definition isOffRoute ::
  "(coordinate \<Rightarrow> coordinate \<Rightarrow> js_number) \<Rightarrow> coordinate \<Rightarrow> position list
     \<Rightarrow> js_number option \<Rightarrow> bool" where
  "isOffRoute distance location routeCoordinates thresholdMeters =
     (let threshold = (case thresholdMeters of None \<Rightarrow> Number 50 | Some t \<Rightarrow> t)
      in case findNearestPointOnLine distance location routeCoordinates of
           None \<Rightarrow> False
         | Some nearest \<Rightarrow> js_greater (np_distance nearest) threshold)"

section \<open>JavaScript array operations used by the code\<close>

text \<open>
  \<open>Array.prototype.splice(start, deleteCount, ...items)\<close> on integer arguments: the
  removed elements and the array after the call.
\<close>

definition js_splice :: "'a list \<Rightarrow> int \<Rightarrow> nat \<Rightarrow> 'a list \<Rightarrow> 'a list \<times> 'a list" where
  "js_splice xs start deleteCount items =
     (let len = int (length xs);
          s = nat (if start < 0 then max (len + start) 0 else min start len);
          dc = min deleteCount (length xs - s)
      in (take dc (drop s xs), take s xs @ items @ drop (s + dc) xs))"

text \<open>\<open>Array.prototype.slice(start, end)\<close> and \<open>slice(start)\<close> on integer arguments.\<close>

definition js_slice :: "'a list \<Rightarrow> int \<Rightarrow> int \<Rightarrow> 'a list" where
  "js_slice xs start end_i =
     (let len = int (length xs);
          s = nat (if start < 0 then max (len + start) 0 else min start len);
          e = nat (if end_i < 0 then max (len + end_i) 0 else min end_i len)
      in take (e - s) (drop s xs))"

definition js_slice_from :: "'a list \<Rightarrow> int \<Rightarrow> 'a list" where
  "js_slice_from xs start = js_slice xs start (int (length xs))"

text \<open>\<open>xs[i]\<close>: \<open>undefined\<close> (here \<open>None\<close>) outside the array.\<close>

definition js_nth :: "'a list \<Rightarrow> int \<Rightarrow> 'a option" where
  "js_nth xs i = (if 0 \<le> i \<and> i < int (length xs) then Some (xs ! nat i) else None)"

text \<open>\<open>Array.prototype.findIndex\<close>: the first index whose element satisfies the test, or -1.\<close>

fun js_findIndex :: "('a \<Rightarrow> bool) \<Rightarrow> 'a list \<Rightarrow> int" where
  "js_findIndex P [] = - 1"
| "js_findIndex P (x # xs) =
     (if P x then 0 else (let r = js_findIndex P xs in if r = - 1 then - 1 else r + 1))"

section \<open>Waypoint store (src/infrastructure/WaypointRepository.ts)\<close>

record waypoint =
  wp_id :: string
  wp_index :: int
  wp_longitude :: real
  wp_latitude :: real
  wp_name :: "string option"
  wp_createdAt :: int

text \<open>
  The repository's only field is the array \<open>waypoints\<close>; a repository state is that list.
  \<open>generateId()\<close> and \<open>Date.now()\<close> read the outside world: their results are the
  arguments \<open>new_id\<close> and \<open>now\<close>.
\<close>

type_synonym waypoint_repository = "waypoint list"

definition WaypointRepository_getAll :: "waypoint_repository \<Rightarrow> waypoint list" where
  "WaypointRepository_getAll waypoints = waypoints"

definition WaypointRepository_getById :: "waypoint_repository \<Rightarrow> string \<Rightarrow> waypoint option" where
  "WaypointRepository_getById waypoints ident = find (\<lambda>wp. wp_id wp = ident) waypoints"

definition WaypointRepository_getByIndex :: "waypoint_repository \<Rightarrow> int \<Rightarrow> waypoint option" where
  "WaypointRepository_getByIndex waypoints index = js_nth waypoints index"

definition reindex :: "waypoint_repository \<Rightarrow> waypoint_repository" where
  "reindex waypoints =
     map (\<lambda>(index, wp). wp\<lparr>wp_index := int index\<rparr>) (enumerate 0 waypoints)"

definition WaypointRepository_add ::
  "waypoint_repository \<Rightarrow> coordinate \<Rightarrow> string option \<Rightarrow> string \<Rightarrow> int
     \<Rightarrow> waypoint \<times> waypoint_repository" where
  "WaypointRepository_add waypoints coord name new_id now =
     (let waypoint = \<lparr>wp_id = new_id, wp_index = int (length waypoints),
                       wp_longitude = longitude coord, wp_latitude = latitude coord,
                       wp_name = name, wp_createdAt = now\<rparr>
      in (waypoint, waypoints @ [waypoint]))"

definition WaypointRepository_insert ::
  "waypoint_repository \<Rightarrow> coordinate \<Rightarrow> int \<Rightarrow> string option \<Rightarrow> string \<Rightarrow> int
     \<Rightarrow> waypoint \<times> waypoint_repository" where
  "WaypointRepository_insert waypoints coord index name new_id now =
     (let clampedIndex = max 0 (min index (int (length waypoints)));
          waypoint = \<lparr>wp_id = new_id, wp_index = clampedIndex,
                       wp_longitude = longitude coord, wp_latitude = latitude coord,
                       wp_name = name, wp_createdAt = now\<rparr>
      in (waypoint, reindex (snd (js_splice waypoints clampedIndex 0 [waypoint]))))"

text \<open>\<open>const [removed] = splice(...)\<close> takes the first removed element, if there is one.\<close>

definition WaypointRepository_remove ::
  "waypoint_repository \<Rightarrow> string \<Rightarrow> waypoint option \<times> waypoint_repository" where
  "WaypointRepository_remove waypoints ident =
     (let index = js_findIndex (\<lambda>wp. wp_id wp = ident) waypoints
      in if index = - 1 then (None, waypoints)
         else
           let (removed, rest) = js_splice waypoints index 1 []
           in (case removed of [] \<Rightarrow> None | r # _ \<Rightarrow> Some r, reindex rest))"

definition WaypointRepository_update ::
  "waypoint_repository \<Rightarrow> string \<Rightarrow> coordinate \<Rightarrow> coordinate option \<times> waypoint_repository" where
  "WaypointRepository_update waypoints ident coord =
     (let index = js_findIndex (\<lambda>wp. wp_id wp = ident) waypoints
      in if index = - 1 then (None, waypoints)
         else
           let old = waypoints ! nat index;
               previous = \<lparr>longitude = wp_longitude old, latitude = wp_latitude old\<rparr>
           in (Some previous,
               waypoints[nat index := old\<lparr>wp_longitude := longitude coord,
                                          wp_latitude := latitude coord\<rparr>]))"

text \<open>
  In \<open>reorder\<close> the element taken out by the first \<open>splice\<close> is the one put back by the
  second; past the guard there always is one.
\<close>

definition WaypointRepository_reorder ::
  "waypoint_repository \<Rightarrow> int \<Rightarrow> int \<Rightarrow> bool \<times> waypoint_repository" where
  "WaypointRepository_reorder waypoints fromIndex toIndex =
     (if fromIndex < 0 \<or> fromIndex \<ge> int (length waypoints)
         \<or> toIndex < 0 \<or> toIndex \<ge> int (length waypoints)
      then (False, waypoints)
      else
        let (removed, rest) = js_splice waypoints fromIndex 1 []
        in (True, reindex (snd (js_splice rest toIndex 0 (take 1 removed)))))"

definition WaypointRepository_setAll ::
  "waypoint_repository \<Rightarrow> waypoint list \<Rightarrow> waypoint_repository" where
  "WaypointRepository_setAll waypoints new_waypoints =
     map (\<lambda>(index, wp). wp\<lparr>wp_index := int index\<rparr>) (enumerate 0 new_waypoints)"

definition WaypointRepository_count :: "waypoint_repository \<Rightarrow> int" where
  "WaypointRepository_count waypoints = int (length waypoints)"

definition WaypointRepository_clear :: "waypoint_repository \<Rightarrow> waypoint_repository" where
  "WaypointRepository_clear waypoints = []"

text \<open>The calls that change a repository, and a run of them from a given state.\<close>

datatype store_call =
    StoreAdd coordinate "string option" string int
  | StoreInsert coordinate int "string option" string int
  | StoreRemove string
  | StoreUpdate string coordinate
  | StoreReorder int int
  | StoreSetAll "waypoint list"
  | StoreClear

fun store_step :: "waypoint_repository \<Rightarrow> store_call \<Rightarrow> waypoint_repository" where
  "store_step ws (StoreAdd c name new_id now) = snd (WaypointRepository_add ws c name new_id now)"
| "store_step ws (StoreInsert c i name new_id now) =
     snd (WaypointRepository_insert ws c i name new_id now)"
| "store_step ws (StoreRemove ident) = snd (WaypointRepository_remove ws ident)"
| "store_step ws (StoreUpdate ident c) = snd (WaypointRepository_update ws ident c)"
| "store_step ws (StoreReorder fromIndex toIndex) =
     snd (WaypointRepository_reorder ws fromIndex toIndex)"
| "store_step ws (StoreSetAll new_waypoints) = WaypointRepository_setAll ws new_waypoints"
| "store_step ws StoreClear = WaypointRepository_clear ws"

fun store_run :: "waypoint_repository \<Rightarrow> store_call list \<Rightarrow> waypoint_repository" where
  "store_run ws [] = ws"
| "store_run ws (c # cs) = store_run (store_step ws c) cs"

text \<open>The index invariant: the \<open>index\<close> fields, in list order, are \<open>0, 1, ..., count - 1\<close>.\<close>

definition index_invariant :: "waypoint list \<Rightarrow> bool" where
  "index_invariant ws = (map wp_index ws = map int [0 ..< length ws])"

section \<open>History manager (HistoryManagerImpl)\<close>

datatype history_action = ActionAdd | ActionRemove | ActionUpdate | ActionReorder | ActionClear

record history_entry =
  he_waypoints :: "waypoint list"
  he_timestamp :: int
  he_action :: history_action

record history_manager =
  history :: "history_entry list"
  currentIndex :: int
  maxSize :: int

definition new_HistoryManagerImpl :: "int \<Rightarrow> history_manager" where
  "new_HistoryManagerImpl max_size = \<lparr>history = [], currentIndex = - 1, maxSize = max_size\<rparr>"

definition HistoryManagerImpl_push ::
  "history_manager \<Rightarrow> waypoint list \<Rightarrow> history_action \<Rightarrow> int \<Rightarrow> history_manager" where
  "HistoryManagerImpl_push h waypoints action now =
     (let kept = js_slice (history h) 0 (currentIndex h + 1);
          pushed = kept @ [\<lparr>he_waypoints = map (\<lambda>wp. wp) waypoints,
                            he_timestamp = now, he_action = action\<rparr>];
          trimmed = (if int (length pushed) > maxSize h
                     then js_slice_from pushed (- maxSize h) else pushed)
      in h\<lparr>history := trimmed, currentIndex := int (length trimmed) - 1\<rparr>)"

definition HistoryManagerImpl_canUndo :: "history_manager \<Rightarrow> bool" where
  "HistoryManagerImpl_canUndo h = (currentIndex h > 0)"

definition HistoryManagerImpl_canRedo :: "history_manager \<Rightarrow> bool" where
  "HistoryManagerImpl_canRedo h = (currentIndex h < int (length (history h)) - 1)"

definition HistoryManagerImpl_undo :: "history_manager \<Rightarrow> history_entry option \<times> history_manager" where
  "HistoryManagerImpl_undo h =
     (if \<not> HistoryManagerImpl_canUndo h then (None, h)
      else let h' = h\<lparr>currentIndex := currentIndex h - 1\<rparr>
           in (js_nth (history h') (currentIndex h'), h'))"

definition HistoryManagerImpl_redo :: "history_manager \<Rightarrow> history_entry option \<times> history_manager" where
  "HistoryManagerImpl_redo h =
     (if \<not> HistoryManagerImpl_canRedo h then (None, h)
      else let h' = h\<lparr>currentIndex := currentIndex h + 1\<rparr>
           in (js_nth (history h') (currentIndex h'), h'))"

definition HistoryManagerImpl_getSize :: "history_manager \<Rightarrow> int" where
  "HistoryManagerImpl_getSize h = int (length (history h))"

definition HistoryManagerImpl_clear :: "history_manager \<Rightarrow> history_manager" where
  "HistoryManagerImpl_clear h = h\<lparr>history := [], currentIndex := - 1\<rparr>"

text \<open>
  A run of \<open>push\<close> calls, each with its waypoint list, action and clock reading, and a
  run of \<open>n\<close> \<open>undo\<close> calls with the values they return, in call order.
\<close>

fun push_all ::
  "history_manager \<Rightarrow> (waypoint list \<times> history_action \<times> int) list \<Rightarrow> history_manager" where
  "push_all h [] = h"
| "push_all h ((ws, action, now) # rest) = push_all (HistoryManagerImpl_push h ws action now) rest"

fun entry_of :: "waypoint list \<times> history_action \<times> int \<Rightarrow> history_entry" where
  "entry_of (ws, action, now) = \<lparr>he_waypoints = ws, he_timestamp = now, he_action = action\<rparr>"

fun undo_times :: "nat \<Rightarrow> history_manager \<Rightarrow> history_entry option list \<times> history_manager" where
  "undo_times 0 h = ([], h)"
| "undo_times (Suc n) h =
     (let (r, h1) = HistoryManagerImpl_undo h;
          (rs, h2) = undo_times n h1
      in (r # rs, h2))"

section \<open>Event channel (EventBusImpl)\<close>

datatype event_name =
    EvWaypointAdded | EvWaypointRemoved | EvWaypointUpdated | EvWaypointReordered
  | EvRouteCalculating | EvRouteCalculated | EvRouteError | EvRouteCleared
  | EvHistoryChange | EvStatsUpdated

text \<open>
  A registered listener is a function object, compared by identity as a JavaScript
  \<open>Set\<close> does. \<open>Plain f\<close> is the caller's function \<open>f\<close>; \<open>OnceWrapper w f\<close> is the
  closure number \<open>w\<close> that \<open>once\<close> builds around \<open>f\<close>. The bodies of the caller's
  functions are not part of the bus: a dispatch records which listeners it invoked, and
  a caller's function is taken not to call back into the bus while it runs.
\<close>

datatype 'f listener = Plain 'f | OnceWrapper nat 'f

text \<open>
  \<open>listeners\<close> is the \<open>Map\<close> from event name to \<open>Set\<close> of listeners; a \<open>Set\<close> is the
  list of its elements in insertion order. \<open>next_closure\<close> numbers the closures built
  so far, so that each \<open>once\<close> call gets a new one.
\<close>

record 'f event_bus =
  listeners :: "event_name \<Rightarrow> 'f listener list option"
  next_closure :: nat

definition js_set_add :: "'a list \<Rightarrow> 'a \<Rightarrow> 'a list" where
  "js_set_add s x = (if x \<in> set s then s else s @ [x])"

definition js_set_delete :: "'a list \<Rightarrow> 'a \<Rightarrow> 'a list" where
  "js_set_delete s x = remove1 x s"

definition new_EventBusImpl :: "'f event_bus" where
  "new_EventBusImpl = \<lparr>listeners = (\<lambda>event. None), next_closure = 0\<rparr>"

definition register_listener :: "'f event_bus \<Rightarrow> event_name \<Rightarrow> 'f listener \<Rightarrow> 'f event_bus" where
  "register_listener bus event l =
     (let created = (case listeners bus event of None \<Rightarrow> [] | Some s \<Rightarrow> s)
      in bus\<lparr>listeners := (listeners bus)(event \<mapsto> js_set_add created l)\<rparr>)"

definition unregister_listener :: "'f event_bus \<Rightarrow> event_name \<Rightarrow> 'f listener \<Rightarrow> 'f event_bus" where
  "unregister_listener bus event l =
     (case listeners bus event of
        None \<Rightarrow> bus
      | Some s \<Rightarrow> bus\<lparr>listeners := (listeners bus)(event \<mapsto> js_set_delete s l)\<rparr>)"

text \<open>\<open>on\<close> and \<open>off\<close> as the caller sees them: with one of the caller's own functions.\<close>

definition EventBusImpl_on :: "'f event_bus \<Rightarrow> event_name \<Rightarrow> 'f \<Rightarrow> 'f event_bus" where
  "EventBusImpl_on bus event f = register_listener bus event (Plain f)"

definition EventBusImpl_off :: "'f event_bus \<Rightarrow> event_name \<Rightarrow> 'f \<Rightarrow> 'f event_bus" where
  "EventBusImpl_off bus event f = unregister_listener bus event (Plain f)"

text \<open>\<open>once\<close> returns the closure it registered, which its unsubscribe handle removes.\<close>

definition EventBusImpl_once ::
  "'f event_bus \<Rightarrow> event_name \<Rightarrow> 'f \<Rightarrow> 'f listener \<times> 'f event_bus" where
  "EventBusImpl_once bus event f =
     (let onceWrapper = OnceWrapper (next_closure bus) f
      in (onceWrapper,
          register_listener (bus\<lparr>next_closure := next_closure bus + 1\<rparr>) event onceWrapper))"

text \<open>
  \<open>Set.prototype.forEach\<close> visits the elements in insertion order and skips one that
  was deleted before its turn. A \<open>once\<close> closure deletes itself and then calls its
  function; a failing listener is caught and the dispatch goes on.
\<close>

fun emit_loop ::
  "'f event_bus \<Rightarrow> event_name \<Rightarrow> 'f listener list \<Rightarrow> 'f listener list
     \<Rightarrow> 'f listener list \<times> 'f event_bus" where
  "emit_loop bus event [] invoked = (invoked, bus)"
| "emit_loop bus event (l # rest) invoked =
     (if l \<in> set (case listeners bus event of None \<Rightarrow> [] | Some s \<Rightarrow> s)
      then (case l of
              Plain f \<Rightarrow> emit_loop bus event rest (invoked @ [l])
            | OnceWrapper w f \<Rightarrow>
                emit_loop (unregister_listener bus event l) event rest (invoked @ [l]))
      else emit_loop bus event rest invoked)"

definition EventBusImpl_emit ::
  "'f event_bus \<Rightarrow> event_name \<Rightarrow> 'f listener list \<times> 'f event_bus" where
  "EventBusImpl_emit bus event =
     (case listeners bus event of
        None \<Rightarrow> ([], bus)
      | Some s \<Rightarrow> emit_loop bus event s [])"

definition EventBusImpl_removeAllListeners ::
  "'f event_bus \<Rightarrow> event_name option \<Rightarrow> 'f event_bus" where
  "EventBusImpl_removeAllListeners bus event =
     (case event of
        Some e \<Rightarrow> bus\<lparr>listeners := (listeners bus)(e := None)\<rparr>
      | None \<Rightarrow> bus\<lparr>listeners := (\<lambda>e. None)\<rparr>)"

text \<open>The calls a client can make on a bus, and a run of them.\<close>

datatype 'f bus_call =
    BusOn event_name 'f
  | BusOff event_name 'f
  | BusOnce event_name 'f
  | BusUnsubscribeOnce event_name nat 'f
  | BusEmit event_name
  | BusRemoveAllListeners "event_name option"

fun bus_step :: "'f event_bus \<Rightarrow> 'f bus_call \<Rightarrow> 'f event_bus" where
  "bus_step bus (BusOn event f) = EventBusImpl_on bus event f"
| "bus_step bus (BusOff event f) = EventBusImpl_off bus event f"
| "bus_step bus (BusOnce event f) = snd (EventBusImpl_once bus event f)"
| "bus_step bus (BusUnsubscribeOnce event w f) = unregister_listener bus event (OnceWrapper w f)"
| "bus_step bus (BusEmit event) = snd (EventBusImpl_emit bus event)"
| "bus_step bus (BusRemoveAllListeners event) = EventBusImpl_removeAllListeners bus event"

fun bus_run :: "'f event_bus \<Rightarrow> 'f bus_call list \<Rightarrow> 'f event_bus" where
  "bus_run bus [] = bus"
| "bus_run bus (c # cs) = bus_run (bus_step bus c) cs"

section \<open>Route calculator (RouteCalculatorAdapter)\<close>

record directions_step =
  ds_instruction :: string
  ds_maneuverType :: string
  ds_distanceMeters :: real
  ds_durationSeconds :: real
  ds_geometry :: "position list"

record directions_response =
  dr_geometry :: "position list"
  dr_distanceMeters :: real
  dr_durationSeconds :: real
  dr_steps :: "directions_step list"

record navigation_step =
  ns_id :: string
  ns_index :: int
  ns_instruction :: string
  ns_maneuverType :: string
  ns_distanceMeters :: real
  ns_durationSeconds :: real
  ns_geometry :: "position list"

record route =
  rt_geometry :: "position list"
  rt_waypoints :: "waypoint list"
  rt_steps :: "navigation_step list"
  rt_bounds :: "real \<times> real \<times> real \<times> real"

record route_stats =
  distanceMeters :: real
  durationSeconds :: real
  waypointCount :: int
  stepCount :: int

record route_calculation_result =
  rc_route :: route
  rc_stats :: route_stats
  rc_steps :: "navigation_step list"

text \<open>
  The directions source is outside the program. One call to it either raises (with a
  message) or returns a response or \<open>null\<close>; which of these happens is an argument of
  the operation that makes the call.
\<close>

datatype provider_outcome = ProviderRaises string | ProviderReturns "directions_response option"

fun position_lng :: "position \<Rightarrow> real" where
  "position_lng (Position2 lon lat) = lon"
| "position_lng (Position3 lon lat alt) = lon"

fun position_lat :: "position \<Rightarrow> real" where
  "position_lat (Position2 lon lat) = lat"
| "position_lat (Position3 lon lat alt) = lat"

text \<open>
  The loop of \<open>calculateBounds\<close> starts from \<open>Infinity\<close> and \<open>-Infinity\<close>, so after the
  first coordinate the four bounds are that coordinate's; the fold starts there.
\<close>

definition calculateBounds :: "position list \<Rightarrow> real \<times> real \<times> real \<times> real" where
  "calculateBounds coordinates =
     (case coordinates of
        [] \<Rightarrow> (0, 0, 0, 0)
      | c # rest \<Rightarrow>
          fold (\<lambda>coord (minLng, minLat, maxLng, maxLat).
                  (min minLng (position_lng coord), min minLat (position_lat coord),
                   max maxLng (position_lng coord), max maxLat (position_lat coord)))
               rest (position_lng c, position_lat c, position_lng c, position_lat c))"

text \<open>
  \<open>calculate\<close>: \<open>Inl msg\<close> when the source raises, \<open>Inr None\<close> for \<open>null\<close>.
  \<open>step_ids\<close> gives the \<open>generateId()\<close> result for each step.
\<close>

definition RouteCalculatorAdapter_calculate ::
  "waypoint list \<Rightarrow> provider_outcome \<Rightarrow> (nat \<Rightarrow> string)
     \<Rightarrow> string + route_calculation_result option" where
  "RouteCalculatorAdapter_calculate waypoints outcome step_ids =
     (if length waypoints < 2 then Inr None
      else case outcome of
        ProviderRaises msg \<Rightarrow> Inl msg
      | ProviderReturns None \<Rightarrow> Inr None
      | ProviderReturns (Some response) \<Rightarrow>
          let steps = map (\<lambda>(index, step).
                        \<lparr>ns_id = step_ids index, ns_index = int index,
                         ns_instruction = ds_instruction step,
                         ns_maneuverType = ds_maneuverType step,
                         ns_distanceMeters = ds_distanceMeters step,
                         ns_durationSeconds = ds_durationSeconds step,
                         ns_geometry = ds_geometry step\<rparr>)
                      (enumerate 0 (dr_steps response));
              route = \<lparr>rt_geometry = dr_geometry response, rt_waypoints = waypoints,
                       rt_steps = steps, rt_bounds = calculateBounds (dr_geometry response)\<rparr>;
              stats = \<lparr>distanceMeters = dr_distanceMeters response,
                       durationSeconds = dr_durationSeconds response,
                       waypointCount = int (length waypoints),
                       stepCount = int (length steps)\<rparr>
          in Inr (Some \<lparr>rc_route = route, rc_stats = stats, rc_steps = steps\<rparr>))"

section \<open>Planner (RoutePlanner)\<close>

record route_planner_options =
  maxHistorySize :: int
  offRouteThreshold :: real
  autoRecalculate :: bool

definition DEFAULT_OPTIONS :: route_planner_options where
  "DEFAULT_OPTIONS = \<lparr>maxHistorySize = 50, offRouteThreshold = 50, autoRecalculate = True\<rparr>"

text \<open>The events of \<open>RouteEventMap\<close> with their payloads.\<close>

datatype undo_redo = ActionUndo | ActionRedo

datatype route_event =
    WaypointAdded waypoint int "waypoint list"
  | WaypointRemoved waypoint int "waypoint list"
  | WaypointUpdated waypoint coordinate "waypoint list"
  | WaypointReordered int int "waypoint list"
  | RouteCalculating int
  | RouteCalculated route route_stats "navigation_step list"
  | RouteError string int
  | RouteCleared int
  | HistoryChange undo_redo bool bool int
  | StatsUpdated route_stats "route_stats option"

text \<open>
  The planner's fields. Of its event bus the planner model keeps \<open>emitted\<close>, the events
  passed to \<open>events.emit\<close> in call order; what the listeners do with them is not
  modelled, and they do not call back into the planner. An operation runs to its end
  before the next one starts.
\<close>

record route_planner =
  options :: route_planner_options
  waypointRepo :: waypoint_repository
  rp_history :: history_manager
  currentRoute :: "route option"
  currentStats :: "route_stats option"
  calculating :: bool
  disposed :: bool
  emitted :: "route_event list"

text \<open>
  What one operation reads from outside the program: the \<open>generateId()\<close> result, the
  clock, the outcome of the directions source if it is called, and the step ids.
\<close>

record env =
  env_new_id :: string
  env_now :: int
  env_provider :: provider_outcome
  env_step_ids :: "nat \<Rightarrow> string"

definition new_RoutePlanner :: "route_planner_options \<Rightarrow> route_planner" where
  "new_RoutePlanner opts =
     \<lparr>options = opts, waypointRepo = [],
      rp_history = new_HistoryManagerImpl (maxHistorySize opts),
      currentRoute = None, currentStats = None,
      calculating = False, disposed = False, emitted = []\<rparr>"

definition events_emit :: "route_planner \<Rightarrow> route_event \<Rightarrow> route_planner" where
  "events_emit p e = p\<lparr>emitted := emitted p @ [e]\<rparr>"

definition RoutePlanner_recalculate :: "route_planner \<Rightarrow> env \<Rightarrow> error + route_planner" where
  "RoutePlanner_recalculate p ev =
     (if disposed p then Inl Disposed
      else
        let waypoints = WaypointRepository_getAll (waypointRepo p)
        in if length waypoints < 2
           then
             let previousStats = currentStats p;
                 p1 = p\<lparr>currentRoute := None, currentStats := None\<rparr>
             in (case previousStats of
                   None \<Rightarrow> Inr p1
                 | Some prev \<Rightarrow>
                     Inr (events_emit p1
                            (StatsUpdated \<lparr>distanceMeters = 0, durationSeconds = 0,
                                            waypointCount = int (length waypoints),
                                            stepCount = 0\<rparr> (Some prev))))
           else
             let p1 = events_emit (p\<lparr>calculating := True\<rparr>)
                        (RouteCalculating (int (length waypoints)))
             in (case RouteCalculatorAdapter_calculate waypoints (env_provider ev)
                         (env_step_ids ev) of
                   Inl msg \<Rightarrow>
                     Inr (events_emit (p1\<lparr>calculating := False\<rparr>)
                            (RouteError msg (int (length waypoints))))
                 | Inr None \<Rightarrow>
                     Inr (events_emit (p1\<lparr>calculating := False\<rparr>)
                            (RouteError ''Failed to calculate directions''
                               (int (length waypoints))))
                 | Inr (Some result) \<Rightarrow>
                     let previousStats = currentStats p1;
                         p2 = p1\<lparr>currentRoute := Some (rc_route result),
                                 currentStats := Some (rc_stats result),
                                 calculating := False\<rparr>;
                         p3 = events_emit p2
                                (RouteCalculated (rc_route result) (rc_stats result)
                                   (rc_steps result))
                     in Inr (events_emit p3 (StatsUpdated (rc_stats result) previousStats))))"

text \<open>The tail of every mutating operation: \<open>if (autoRecalculate) await recalculate()\<close>.\<close>

definition auto_recalculate :: "route_planner \<Rightarrow> env \<Rightarrow> 'a \<Rightarrow> error + 'a \<times> route_planner" where
  "auto_recalculate p ev result =
     (if autoRecalculate (options p)
      then (case RoutePlanner_recalculate p ev of
              Inl e \<Rightarrow> Inl e
            | Inr p' \<Rightarrow> Inr (result, p'))
      else Inr (result, p))"

definition RoutePlanner_addWaypoint ::
  "route_planner \<Rightarrow> coordinate \<Rightarrow> string option \<Rightarrow> env \<Rightarrow> error + waypoint \<times> route_planner" where
  "RoutePlanner_addWaypoint p coord name ev =
     (if disposed p then Inl Disposed
      else
        let h = HistoryManagerImpl_push (rp_history p)
                  (WaypointRepository_getAll (waypointRepo p)) ActionAdd (env_now ev);
            (waypoint, repo) = WaypointRepository_add (waypointRepo p) coord name
                                 (env_new_id ev) (env_now ev);
            allWaypoints = WaypointRepository_getAll repo;
            p1 = events_emit (p\<lparr>rp_history := h, waypointRepo := repo\<rparr>)
                   (WaypointAdded waypoint (wp_index waypoint) allWaypoints)
        in auto_recalculate p1 ev waypoint)"

definition RoutePlanner_insertWaypoint ::
  "route_planner \<Rightarrow> coordinate \<Rightarrow> int \<Rightarrow> string option \<Rightarrow> env
     \<Rightarrow> error + waypoint \<times> route_planner" where
  "RoutePlanner_insertWaypoint p coord index name ev =
     (if disposed p then Inl Disposed
      else
        let h = HistoryManagerImpl_push (rp_history p)
                  (WaypointRepository_getAll (waypointRepo p)) ActionAdd (env_now ev);
            (waypoint, repo) = WaypointRepository_insert (waypointRepo p) coord index name
                                 (env_new_id ev) (env_now ev);
            allWaypoints = WaypointRepository_getAll repo;
            p1 = events_emit (p\<lparr>rp_history := h, waypointRepo := repo\<rparr>)
                   (WaypointAdded waypoint (wp_index waypoint) allWaypoints)
        in auto_recalculate p1 ev waypoint)"

definition RoutePlanner_removeWaypoint ::
  "route_planner \<Rightarrow> string \<Rightarrow> env \<Rightarrow> error + unit \<times> route_planner" where
  "RoutePlanner_removeWaypoint p waypointId ev =
     (if disposed p then Inl Disposed
      else case WaypointRepository_getById (waypointRepo p) waypointId of
        None \<Rightarrow> Inr ((), p)
      | Some waypoint \<Rightarrow>
          let h = HistoryManagerImpl_push (rp_history p)
                    (WaypointRepository_getAll (waypointRepo p)) ActionRemove (env_now ev);
              removedIndex = wp_index waypoint;
              repo = snd (WaypointRepository_remove (waypointRepo p) waypointId);
              allWaypoints = WaypointRepository_getAll repo;
              p1 = events_emit (p\<lparr>rp_history := h, waypointRepo := repo\<rparr>)
                     (WaypointRemoved waypoint removedIndex allWaypoints)
          in auto_recalculate p1 ev ())"

text \<open>
  In \<open>updateWaypoint\<close>, \<open>getById(waypointId)!\<close> after a successful update is the updated
  waypoint; were it missing, reading it for the event would give \<open>null\<close>, here the
  stored waypoint as it was found first.
\<close>

definition RoutePlanner_updateWaypoint ::
  "route_planner \<Rightarrow> string \<Rightarrow> coordinate \<Rightarrow> env \<Rightarrow> error + unit \<times> route_planner" where
  "RoutePlanner_updateWaypoint p waypointId coord ev =
     (if disposed p then Inl Disposed
      else case WaypointRepository_getById (waypointRepo p) waypointId of
        None \<Rightarrow> Inr ((), p)
      | Some waypoint \<Rightarrow>
          let h = HistoryManagerImpl_push (rp_history p)
                    (WaypointRepository_getAll (waypointRepo p)) ActionUpdate (env_now ev);
              (previousCoordinate, repo) =
                 WaypointRepository_update (waypointRepo p) waypointId coord;
              p1 = p\<lparr>rp_history := h, waypointRepo := repo\<rparr>
          in (case previousCoordinate of
                None \<Rightarrow> Inr ((), p1)
              | Some previous \<Rightarrow>
                  let updatedWaypoint =
                        (case WaypointRepository_getById repo waypointId of
                           None \<Rightarrow> waypoint | Some w \<Rightarrow> w);
                      allWaypoints = WaypointRepository_getAll repo;
                      p2 = events_emit p1 (WaypointUpdated updatedWaypoint previous allWaypoints)
                  in auto_recalculate p2 ev ()))"

definition RoutePlanner_reorderWaypoints ::
  "route_planner \<Rightarrow> int \<Rightarrow> int \<Rightarrow> env \<Rightarrow> error + unit \<times> route_planner" where
  "RoutePlanner_reorderWaypoints p fromIndex toIndex ev =
     (if disposed p then Inl Disposed
      else
        let h = HistoryManagerImpl_push (rp_history p)
                  (WaypointRepository_getAll (waypointRepo p)) ActionReorder (env_now ev);
            (success, repo) = WaypointRepository_reorder (waypointRepo p) fromIndex toIndex;
            p1 = p\<lparr>rp_history := h, waypointRepo := repo\<rparr>
        in if \<not> success then Inr ((), p1)
           else
             let allWaypoints = WaypointRepository_getAll repo;
                 p2 = events_emit p1 (WaypointReordered fromIndex toIndex allWaypoints)
             in auto_recalculate p2 ev ())"

definition RoutePlanner_getWaypoints :: "route_planner \<Rightarrow> waypoint list" where
  "RoutePlanner_getWaypoints p = WaypointRepository_getAll (waypointRepo p)"

definition RoutePlanner_clear :: "route_planner \<Rightarrow> env \<Rightarrow> error + unit \<times> route_planner" where
  "RoutePlanner_clear p ev =
     (if disposed p then Inl Disposed
      else
        let previousCount = WaypointRepository_count (waypointRepo p);
            h = (if previousCount > 0
                 then HistoryManagerImpl_push (rp_history p)
                        (WaypointRepository_getAll (waypointRepo p)) ActionClear (env_now ev)
                 else rp_history p);
            p1 = p\<lparr>rp_history := h,
                   waypointRepo := WaypointRepository_clear (waypointRepo p),
                   currentRoute := None, currentStats := None\<rparr>
        in Inr ((), events_emit p1 (RouteCleared previousCount)))"

definition RoutePlanner_getRoute :: "route_planner \<Rightarrow> route option" where
  "RoutePlanner_getRoute p = currentRoute p"

definition RoutePlanner_getStats :: "route_planner \<Rightarrow> route_stats option" where
  "RoutePlanner_getStats p = currentStats p"

definition RoutePlanner_getNavigationSteps :: "route_planner \<Rightarrow> navigation_step list" where
  "RoutePlanner_getNavigationSteps p =
     (case currentRoute p of None \<Rightarrow> [] | Some r \<Rightarrow> rt_steps r)"

definition RoutePlanner_isCalculating :: "route_planner \<Rightarrow> bool" where
  "RoutePlanner_isCalculating p = calculating p"

definition RoutePlanner_undo :: "route_planner \<Rightarrow> env \<Rightarrow> error + bool \<times> route_planner" where
  "RoutePlanner_undo p ev =
     (if disposed p then Inl Disposed
      else
        let (entry, h) = HistoryManagerImpl_undo (rp_history p)
        in case entry of
             None \<Rightarrow> Inr (False, p\<lparr>rp_history := h\<rparr>)
           | Some e \<Rightarrow>
               let repo = WaypointRepository_setAll (waypointRepo p) (he_waypoints e);
                   p1 = events_emit (p\<lparr>rp_history := h, waypointRepo := repo\<rparr>)
                          (HistoryChange ActionUndo (HistoryManagerImpl_canUndo h)
                             (HistoryManagerImpl_canRedo h) (HistoryManagerImpl_getSize h))
               in auto_recalculate p1 ev True)"

definition RoutePlanner_redo :: "route_planner \<Rightarrow> env \<Rightarrow> error + bool \<times> route_planner" where
  "RoutePlanner_redo p ev =
     (if disposed p then Inl Disposed
      else
        let (entry, h) = HistoryManagerImpl_redo (rp_history p)
        in case entry of
             None \<Rightarrow> Inr (False, p\<lparr>rp_history := h\<rparr>)
           | Some e \<Rightarrow>
               let repo = WaypointRepository_setAll (waypointRepo p) (he_waypoints e);
                   p1 = events_emit (p\<lparr>rp_history := h, waypointRepo := repo\<rparr>)
                          (HistoryChange ActionRedo (HistoryManagerImpl_canUndo h)
                             (HistoryManagerImpl_canRedo h) (HistoryManagerImpl_getSize h))
               in auto_recalculate p1 ev True)"

definition RoutePlanner_canUndo :: "route_planner \<Rightarrow> bool" where
  "RoutePlanner_canUndo p = HistoryManagerImpl_canUndo (rp_history p)"

definition RoutePlanner_canRedo :: "route_planner \<Rightarrow> bool" where
  "RoutePlanner_canRedo p = HistoryManagerImpl_canRedo (rp_history p)"

definition RoutePlanner_getHistorySize :: "route_planner \<Rightarrow> int" where
  "RoutePlanner_getHistorySize p = HistoryManagerImpl_getSize (rp_history p)"

text \<open>
  The planner's geo service is \<open>GeoServiceImpl\<close>, which forwards to the geometry
  functions; in the planner model its distances are the exact ones.
\<close>

definition RoutePlanner_getNearestPointOnRoute ::
  "route_planner \<Rightarrow> coordinate \<Rightarrow> nearest_point_result option" where
  "RoutePlanner_getNearestPointOnRoute p coord =
     (case currentRoute p of
        None \<Rightarrow> None
      | Some r \<Rightarrow>
          if length (rt_geometry r) < 2 then None
          else findNearestPointOnLine exact_distance coord (rt_geometry r))"

definition RoutePlanner_isOffRoute :: "route_planner \<Rightarrow> coordinate \<Rightarrow> real option \<Rightarrow> bool" where
  "RoutePlanner_isOffRoute p coord threshold =
     (case currentRoute p of
        None \<Rightarrow> False
      | Some r \<Rightarrow>
          if length (rt_geometry r) < 2 then False
          else isOffRoute exact_distance coord (rt_geometry r)
                 (Some (Number (case threshold of
                                  None \<Rightarrow> offRouteThreshold (options p)
                                | Some t \<Rightarrow> t))))"

definition RoutePlanner_getRemainingDistance ::
  "route_planner \<Rightarrow> coordinate \<Rightarrow> error + real option" where
  "RoutePlanner_getRemainingDistance p coord =
     (case currentRoute p of
        None \<Rightarrow> Inr None
      | Some r \<Rightarrow>
          if length (rt_geometry r) < 2 then Inr None
          else case findNearestPointOnLine exact_distance coord (rt_geometry r) of
            None \<Rightarrow> Inr None
          | Some nearest \<Rightarrow>
              (case calculateRemainingLength (rt_geometry r) (np_segmentIndex nearest)
                      (np_segmentFraction nearest) of
                 Inl e \<Rightarrow> Inl e
               | Inr d \<Rightarrow> Inr (Some d)))"

text \<open>
  \<open>dispose\<close> also empties the bus's registries and asks the calculator to cancel; neither
  is a field of the planner model.
\<close>

definition RoutePlanner_dispose :: "route_planner \<Rightarrow> route_planner" where
  "RoutePlanner_dispose p =
     p\<lparr>disposed := True,
       waypointRepo := WaypointRepository_clear (waypointRepo p),
       rp_history := HistoryManagerImpl_clear (rp_history p),
       currentRoute := None, currentStats := None\<rparr>"

definition RoutePlanner_isDisposed :: "route_planner \<Rightarrow> bool" where
  "RoutePlanner_isDisposed p = disposed p"

text \<open>
  The public operations as one call type, with the value each returns. A call either
  fails with an error or returns its value and the planner state after it.
\<close>

datatype planner_call =
    AddWaypoint coordinate "string option"
  | InsertWaypoint coordinate int "string option"
  | RemoveWaypoint string
  | UpdateWaypoint string coordinate
  | ReorderWaypoints int int
  | GetWaypoints
  | ClearCall
  | GetRoute
  | GetStats
  | GetNavigationSteps
  | IsCalculating
  | Undo
  | Redo
  | CanUndo
  | CanRedo
  | GetHistorySize
  | GetNearestPointOnRoute coordinate
  | IsOffRoute coordinate "real option"
  | GetRemainingDistance coordinate
  | Recalculate
  | Dispose
  | IsDisposed

datatype planner_result =
    RetVoid
  | RetWaypoint waypoint
  | RetWaypoints "waypoint list"
  | RetBool bool
  | RetSize int
  | RetRoute "route option"
  | RetStats "route_stats option"
  | RetSteps "navigation_step list"
  | RetNearest "nearest_point_result option"
  | RetDistance "real option"

definition returning ::
  "('a \<Rightarrow> planner_result) \<Rightarrow> error + 'a \<times> route_planner
     \<Rightarrow> error + planner_result \<times> route_planner" where
  "returning wrap r = (case r of Inl e \<Rightarrow> Inl e | Inr (v, p) \<Rightarrow> Inr (wrap v, p))"

fun RoutePlanner_call ::
  "route_planner \<Rightarrow> planner_call \<Rightarrow> env \<Rightarrow> error + planner_result \<times> route_planner" where
  "RoutePlanner_call p (AddWaypoint c name) ev =
     returning RetWaypoint (RoutePlanner_addWaypoint p c name ev)"
| "RoutePlanner_call p (InsertWaypoint c i name) ev =
     returning RetWaypoint (RoutePlanner_insertWaypoint p c i name ev)"
| "RoutePlanner_call p (RemoveWaypoint ident) ev =
     returning (\<lambda>_. RetVoid) (RoutePlanner_removeWaypoint p ident ev)"
| "RoutePlanner_call p (UpdateWaypoint ident c) ev =
     returning (\<lambda>_. RetVoid) (RoutePlanner_updateWaypoint p ident c ev)"
| "RoutePlanner_call p (ReorderWaypoints fromIndex toIndex) ev =
     returning (\<lambda>_. RetVoid) (RoutePlanner_reorderWaypoints p fromIndex toIndex ev)"
| "RoutePlanner_call p GetWaypoints ev = Inr (RetWaypoints (RoutePlanner_getWaypoints p), p)"
| "RoutePlanner_call p ClearCall ev = returning (\<lambda>_. RetVoid) (RoutePlanner_clear p ev)"
| "RoutePlanner_call p GetRoute ev = Inr (RetRoute (RoutePlanner_getRoute p), p)"
| "RoutePlanner_call p GetStats ev = Inr (RetStats (RoutePlanner_getStats p), p)"
| "RoutePlanner_call p GetNavigationSteps ev =
     Inr (RetSteps (RoutePlanner_getNavigationSteps p), p)"
| "RoutePlanner_call p IsCalculating ev = Inr (RetBool (RoutePlanner_isCalculating p), p)"
| "RoutePlanner_call p Undo ev = returning RetBool (RoutePlanner_undo p ev)"
| "RoutePlanner_call p Redo ev = returning RetBool (RoutePlanner_redo p ev)"
| "RoutePlanner_call p CanUndo ev = Inr (RetBool (RoutePlanner_canUndo p), p)"
| "RoutePlanner_call p CanRedo ev = Inr (RetBool (RoutePlanner_canRedo p), p)"
| "RoutePlanner_call p GetHistorySize ev = Inr (RetSize (RoutePlanner_getHistorySize p), p)"
| "RoutePlanner_call p (GetNearestPointOnRoute c) ev =
     Inr (RetNearest (RoutePlanner_getNearestPointOnRoute p c), p)"
| "RoutePlanner_call p (IsOffRoute c threshold) ev =
     Inr (RetBool (RoutePlanner_isOffRoute p c threshold), p)"
| "RoutePlanner_call p (GetRemainingDistance c) ev =
     (case RoutePlanner_getRemainingDistance p c of
        Inl e \<Rightarrow> Inl e
      | Inr d \<Rightarrow> Inr (RetDistance d, p))"
| "RoutePlanner_call p Recalculate ev =
     (case RoutePlanner_recalculate p ev of
        Inl e \<Rightarrow> Inl e
      | Inr p' \<Rightarrow> Inr (RetVoid, p'))"
| "RoutePlanner_call p Dispose ev = Inr (RetVoid, RoutePlanner_dispose p)"
| "RoutePlanner_call p IsDisposed ev = Inr (RetBool (RoutePlanner_isDisposed p), p)"

text \<open>The operations that start with \<open>this.ensureNotDisposed()\<close>.\<close>

fun calls_ensureNotDisposed :: "planner_call \<Rightarrow> bool" where
  "calls_ensureNotDisposed (AddWaypoint c name) = True"
| "calls_ensureNotDisposed (InsertWaypoint c i name) = True"
| "calls_ensureNotDisposed (RemoveWaypoint ident) = True"
| "calls_ensureNotDisposed (UpdateWaypoint ident c) = True"
| "calls_ensureNotDisposed (ReorderWaypoints fromIndex toIndex) = True"
| "calls_ensureNotDisposed ClearCall = True"
| "calls_ensureNotDisposed Undo = True"
| "calls_ensureNotDisposed Redo = True"
| "calls_ensureNotDisposed Recalculate = True"
| "calls_ensureNotDisposed _ = False"

text \<open>A run of calls, each with what it reads from outside; a fault ends the run.\<close>

fun RoutePlanner_run ::
  "route_planner \<Rightarrow> (planner_call \<times> env) list \<Rightarrow> error + route_planner" where
  "RoutePlanner_run p [] = Inr p"
| "RoutePlanner_run p ((call, ev) # rest) =
     (case RoutePlanner_call p call ev of
        Inl e \<Rightarrow> Inl e
      | Inr (r, p') \<Rightarrow> RoutePlanner_run p' rest)"

text \<open>
  \<open>dispose\<close> empties the store and every later mutation is refused, so a planner that
  is disposed holds no waypoints.
\<close>

definition planner_invariant :: "route_planner \<Rightarrow> bool" where
  "planner_invariant p = (\<not> disposed p \<or> waypointRepo p = [])"

text \<open>
  \<open>recalculate\<close> in two parts, for a call of another operation that arrives while the
  directions source is awaited: \<open>RoutePlanner_recalculate_start\<close> is the code up to the
  \<open>await\<close>, and \<open>RoutePlanner_recalculate_resume\<close> the code after it, run on the planner
  as it is when the source answers, with the waypoint array read before the \<open>await\<close>.
\<close>

datatype recalculation = Completed route_planner | Awaiting route_planner "waypoint list"

definition RoutePlanner_recalculate_start :: "route_planner \<Rightarrow> error + recalculation" where
  "RoutePlanner_recalculate_start p =
     (if disposed p then Inl Disposed
      else
        let waypoints = WaypointRepository_getAll (waypointRepo p)
        in if length waypoints < 2
           then
             let previousStats = currentStats p;
                 p1 = p\<lparr>currentRoute := None, currentStats := None\<rparr>
             in (case previousStats of
                   None \<Rightarrow> Inr (Completed p1)
                 | Some prev \<Rightarrow>
                     Inr (Completed (events_emit p1
                            (StatsUpdated \<lparr>distanceMeters = 0, durationSeconds = 0,
                                            waypointCount = int (length waypoints),
                                            stepCount = 0\<rparr> (Some prev)))))
           else
             Inr (Awaiting (events_emit (p\<lparr>calculating := True\<rparr>)
                              (RouteCalculating (int (length waypoints)))) waypoints))"

definition RoutePlanner_recalculate_resume ::
  "route_planner \<Rightarrow> waypoint list \<Rightarrow> env \<Rightarrow> route_planner" where
  "RoutePlanner_recalculate_resume p waypoints ev =
     (case RouteCalculatorAdapter_calculate waypoints (env_provider ev) (env_step_ids ev) of
        Inl msg \<Rightarrow>
          events_emit (p\<lparr>calculating := False\<rparr>) (RouteError msg (int (length waypoints)))
      | Inr None \<Rightarrow>
          events_emit (p\<lparr>calculating := False\<rparr>)
            (RouteError ''Failed to calculate directions'' (int (length waypoints)))
      | Inr (Some result) \<Rightarrow>
          let previousStats = currentStats p;
              p2 = p\<lparr>currentRoute := Some (rc_route result),
                     currentStats := Some (rc_stats result),
                     calculating := False\<rparr>;
              p3 = events_emit p2
                     (RouteCalculated (rc_route result) (rc_stats result) (rc_steps result))
          in events_emit p3 (StatsUpdated (rc_stats result) previousStats))"

section \<open>Notions used to state the properties\<close>

text \<open>The distance from a point to segment \<open>k\<close> of a polyline, as the loop computes it.\<close>

definition segment_distance ::
  "(coordinate \<Rightarrow> coordinate \<Rightarrow> js_number) \<Rightarrow> coordinate \<Rightarrow> position list \<Rightarrow> nat
     \<Rightarrow> js_number" where
  "segment_distance distance point cs k =
     sr_distance (nearestPointOnSegment distance point
                    (positionToCoordinate (cs ! k)) (positionToCoordinate (cs ! (k + 1))))"

text \<open>The length of segment \<open>k\<close> of a polyline: the distance between points \<open>k\<close> and \<open>k + 1\<close>.\<close>

definition segment_length :: "position list \<Rightarrow> nat \<Rightarrow> real" where
  "segment_length cs k =
     calculateDistance (positionToCoordinate (cs ! k)) (positionToCoordinate (cs ! (k + 1)))"

text \<open>The last \<open>m\<close> elements of a list (all of it when it is shorter).\<close>

definition lastn :: "nat \<Rightarrow> 'a list \<Rightarrow> 'a list" where
  "lastn m ys = drop (length ys - m) ys"

text \<open>No \<open>Set\<close> of the bus holds a listener twice.\<close>

definition bus_distinct :: "'f event_bus \<Rightarrow> bool" where
  "bus_distinct bus = (\<forall>event s. listeners bus event = Some s \<longrightarrow> distinct s)"

section \<open>Geometry: line length and remaining distance\<close>

lemma calculateLineLength_loop_sum:
  "i \<le> length cs - 1 \<Longrightarrow>
   calculateLineLength_loop cs i t = t + (\<Sum>k = i ..< length cs - 1. segment_length cs k)"
proof (induction cs i t rule: calculateLineLength_loop.induct)
  case (1 cs i t)
  show ?case
  proof (cases "i < length cs - 1")
    case True
    then have "calculateLineLength_loop cs i t =
        calculateLineLength_loop cs (i + 1) (t + segment_length cs i)"
      by (subst calculateLineLength_loop.simps) (simp add: segment_length_def)
    also have "\<dots> = t + segment_length cs i + (\<Sum>k = i + 1 ..< length cs - 1. segment_length cs k)"
      using "1.IH" [OF True] True by (simp add: segment_length_def)
    also have "\<dots> = t + (\<Sum>k = i ..< length cs - 1. segment_length cs k)"
      using True by (simp add: sum.atLeast_Suc_lessThan)
    finally show ?thesis .
  next
    case False
    with "1.prems" have "i = length cs - 1" by simp
    then show ?thesis by (subst calculateLineLength_loop.simps) simp
  qed
qed

lemma calculateRemainingLength_loop_eq:
  "calculateRemainingLength_loop cs i t = calculateLineLength_loop cs i t"
proof (induction cs i t rule: calculateLineLength_loop.induct)
  case (1 cs i t)
  show ?case
  proof (cases "i < length cs - 1")
    case True
    show ?thesis
      apply (subst calculateRemainingLength_loop.simps)
      apply (subst calculateLineLength_loop.simps)
      apply (simp only: True if_True "1.IH" [OF True])
      done
  next
    case False
    show ?thesis
      apply (subst calculateRemainingLength_loop.simps)
      apply (subst calculateLineLength_loop.simps)
      apply (simp only: False if_False)
      done
  qed
qed

lemma calculateRemainingLength_sum:
  "0 \<le> fromIndex \<Longrightarrow>
   calculateRemainingLength cs fromIndex f =
     Inr (if length cs < 2 \<or> int (length cs) - 1 \<le> fromIndex then 0
          else segment_length cs (nat fromIndex) * (1 - f)
               + (\<Sum>k = nat fromIndex + 1 ..< length cs - 1. segment_length cs k))"
proof (cases "length cs < 2 \<or> int (length cs) - 1 \<le> fromIndex")
  case True
  then show ?thesis by (simp add: calculateRemainingLength_def)
next
  case False
  assume nn: "0 \<le> fromIndex"
  define i where "i = nat fromIndex"
  from False nn have le: "i + 1 \<le> length cs - 1" unfolding i_def by linarith
  have "calculateRemainingLength cs fromIndex f =
      Inr (calculateRemainingLength_loop cs (i + 1) (0 + segment_length cs i * (1 - f)))"
  proof -
    from nn have nl: "\<not> fromIndex < 0" by simp
    show ?thesis
      unfolding calculateRemainingLength_def Let_def segment_length_def i_def
      by (simp only: False nl if_False)
  qed
  also have "\<dots> = Inr (segment_length cs i * (1 - f)
      + (\<Sum>k = i + 1 ..< length cs - 1. segment_length cs k))"
    by (simp only: calculateRemainingLength_loop_eq calculateLineLength_loop_sum [OF le] add_0)
  finally show ?thesis
    using False unfolding i_def by (simp only: if_False)
qed

lemma calculateRemainingLength_negative:
  "2 \<le> length cs \<Longrightarrow> fromIndex < 0 \<Longrightarrow> calculateRemainingLength cs fromIndex f = Inl TypeError"
  by (simp add: calculateRemainingLength_def)

lemma distance_antipodal:
  "calculateDistance \<lparr>longitude = 0, latitude = 0\<rparr> \<lparr>longitude = 180, latitude = 0\<rparr>
     = EARTH_RADIUS_METERS * pi"
  by (simp add: calculateDistance_def toRadians_def atan2_def Let_def)

lemma calculateDistance_self: "calculateDistance a a = 0"
  by (simp add: calculateDistance_def toRadians_def atan2_def Let_def)

text \<open>
  Claim C6, as stated, fails: it asks for 0 when \<open>fromIndex\<close> is at the last segment.
  On the two-point line from (0, 0) to (180, 0), segment 0 is the last segment, and
  from its start the remaining distance is the whole segment, half the equator, not 0.
\<close>

theorem C6_last_segment_counterexample:
  "calculateRemainingLength [Position2 0 0, Position2 180 0] 0 0 = Inr (EARTH_RADIUS_METERS * pi)
   \<and> EARTH_RADIUS_METERS * pi \<noteq> 0"
  by (simp add: calculateRemainingLength_def Let_def distance_antipodal
      calculateRemainingLength_loop.simps EARTH_RADIUS_METERS_def)

text \<open>
  Claim C6, amended: for every polyline, every segment index \<open>fromIndex\<close> (an integer
  from 0 on) and every fraction, \<open>calculateRemainingLength\<close> returns the length of segment \<open>fromIndex\<close> scaled
  by \<open>1 - fromFraction\<close> plus the full lengths of all later segments, and returns 0 when
  \<open>fromIndex\<close> is past the last segment (\<open>fromIndex \<ge> length - 1\<close>) or the line has
  fewer than 2 points.
\<close>

theorem C6_remaining_distance:
  "0 \<le> fromIndex \<Longrightarrow>
   calculateRemainingLength cs fromIndex fromFraction =
     Inr (if length cs < 2 \<or> int (length cs) - 1 \<le> fromIndex then 0
          else segment_length cs (nat fromIndex) * (1 - fromFraction)
               + (\<Sum>k = nat fromIndex + 1 ..< length cs - 1. segment_length cs k))"
  by (rule calculateRemainingLength_sum)

theorem C6_remaining_distance_witness:
  "(0::int) \<le> 0 \<and>
   calculateRemainingLength [Position2 0 0, Position2 0 1, Position2 1 1] 0 (1 / 2) =
     Inr (if length [Position2 0 0, Position2 0 1, Position2 1 1] < 2
             \<or> int (length [Position2 0 0, Position2 0 1, Position2 1 1]) - 1 \<le> 0 then 0
          else segment_length [Position2 0 0, Position2 0 1, Position2 1 1] (nat 0) * (1 - 1 / 2)
               + (\<Sum>k = nat 0 + 1 ..< length [Position2 0 0, Position2 0 1, Position2 1 1] - 1.
                    segment_length [Position2 0 0, Position2 0 1, Position2 1 1] k))"
proof -
  have h: "(0::int) \<le> 0" by simp
  from h C6_remaining_distance [OF h] show ?thesis by (rule conjI)
qed

text \<open>
  Claim C9: for every polyline, also one with fewer than 2 points, the remaining
  distance from segment 0 at fraction 0 is the length of the line.
\<close>

theorem C9_remaining_from_start_is_line_length:
  "calculateRemainingLength cs 0 0 = Inr (calculateLineLength cs)"
proof (cases "length cs < 2")
  case True
  then show ?thesis by (simp add: calculateRemainingLength_def calculateLineLength_def)
next
  case False
  then have a: "(0::nat) \<le> length cs - 1" and c: "0 < length cs - 1"
    and d: "\<not> (length cs < 2 \<or> int (length cs) - 1 \<le> 0)" by simp_all
  have "calculateRemainingLength cs 0 0 =
      Inr (segment_length cs 0 + (\<Sum>k = 0 + 1 ..< length cs - 1. segment_length cs k))"
    using calculateRemainingLength_sum [of 0 cs 0] d by simp
  also have "segment_length cs 0 + (\<Sum>k = 0 + 1 ..< length cs - 1. segment_length cs k)
      = (\<Sum>k = 0 ..< length cs - 1. segment_length cs k)"
    using c by (simp add: sum.atLeast_Suc_lessThan)
  also have "\<dots> = calculateLineLength cs"
    using False by (simp add: calculateLineLength_def calculateLineLength_loop_sum [OF a])
  finally show ?thesis .
qed

theorem C9_remaining_from_start_is_line_length_witness:
  "calculateRemainingLength [Position2 0 0, Position2 0 1, Position3 1 1 5] 0 0
     = Inr (calculateLineLength [Position2 0 0, Position2 0 1, Position3 1 1 5])
   \<and> calculateRemainingLength [Position2 3 4] 0 0 = Inr (calculateLineLength [Position2 3 4])"
  by (intro conjI C9_remaining_from_start_is_line_length)

section \<open>Geometry: nearest point and off-route test\<close>

lemma js_less_irrefl: "\<not> js_less a a"
  by (cases a) simp_all

lemma js_less_Infinity: "js_less a Infinity \<longleftrightarrow> (\<exists>x. a = Number x)"
  by (cases a) simp_all

lemma findNearestPointOnLine_loop_step:
  "i < length cs - 1 \<Longrightarrow>
   findNearestPointOnLine_loop distance p cs i (m, np, idx, fr) =
     (if js_less (segment_distance distance p cs i) m
      then findNearestPointOnLine_loop distance p cs (i + 1)
             (segment_distance distance p cs i,
              Some (sr_point (nearestPointOnSegment distance p
                      (positionToCoordinate (cs ! i)) (positionToCoordinate (cs ! (i + 1))))),
              int i,
              sr_fraction (nearestPointOnSegment distance p
                      (positionToCoordinate (cs ! i)) (positionToCoordinate (cs ! (i + 1)))))
      else findNearestPointOnLine_loop distance p cs (i + 1) (m, np, idx, fr))"
  by (subst findNearestPointOnLine_loop.simps) (simp add: Let_def segment_distance_def)

lemma findNearestPointOnLine_loop_stop:
  "\<not> i < length cs - 1 \<Longrightarrow>
   findNearestPointOnLine_loop distance p cs i (m, np, idx, fr) = (m, np, idx, fr)"
  by (subst findNearestPointOnLine_loop.simps) simp

lemma findNearestPointOnLine_loop_null:
  "fst (snd (findNearestPointOnLine_loop distance p cs i st)) = None \<longleftrightarrow>
     fst (snd st) = None \<and>
     (\<forall>k. i \<le> k \<and> k < length cs - 1 \<longrightarrow> \<not> js_less (segment_distance distance p cs k) (fst st))"
proof (induction distance p cs i st rule: findNearestPointOnLine_loop.induct)
  case (1 distance p cs i m np idx fr)
  show ?case
  proof (cases "i < length cs - 1")
    case False
    then have "\<And>k. \<not> (i \<le> k \<and> k < length cs - 1)" by linarith
    then have "\<forall>k. i \<le> k \<and> k < length cs - 1 \<longrightarrow>
        \<not> js_less (segment_distance distance p cs k) m" by blast
    then show ?thesis
      by (simp only: findNearestPointOnLine_loop_stop [OF False] fst_conv snd_conv) simp
  next
    case True
    note step = findNearestPointOnLine_loop_step [OF True, of distance p m np idx fr]
    show ?thesis
    proof (cases "js_less (segment_distance distance p cs i) m")
      case closer: True
      have "fst (snd (findNearestPointOnLine_loop distance p cs i (m, np, idx, fr))) \<noteq> None"
        using "1.IH"(1) [OF True refl refl refl] closer
        by (simp add: step segment_distance_def)
      moreover have "\<not> (\<forall>k. i \<le> k \<and> k < length cs - 1 \<longrightarrow>
          \<not> js_less (segment_distance distance p cs k) m)"
        using closer True by auto
      ultimately show ?thesis
        by (simp only: fst_conv snd_conv) blast
    next
      case further: False
      have "(\<forall>k. i \<le> k \<and> k < length cs - 1 \<longrightarrow>
                \<not> js_less (segment_distance distance p cs k) m)
          \<longleftrightarrow> (\<forall>k. i + 1 \<le> k \<and> k < length cs - 1 \<longrightarrow>
                \<not> js_less (segment_distance distance p cs k) m)"
        using further by (metis Suc_eq_plus1 Suc_leI le_neq_implies_less add_leD1 le_refl)
      then show ?thesis
        using "1.IH"(2) [OF True refl refl refl] further
        by (simp add: step segment_distance_def)
    qed
  qed
qed

text \<open>
  \<open>findNearestPointOnLine\<close> returns \<open>null\<close> exactly when the line has fewer than 2
  points or no segment distance is a finite number.
\<close>

lemma findNearestPointOnLine_None_iff:
  "findNearestPointOnLine distance p cs = None \<longleftrightarrow>
     length cs < 2 \<or> (\<forall>k < length cs - 1. \<forall>x. segment_distance distance p cs k \<noteq> Number x)"
proof (cases "length cs < 2")
  case True
  then show ?thesis by (simp add: findNearestPointOnLine_def)
next
  case False
  obtain m np idx fr where l:
    "findNearestPointOnLine_loop distance p cs 0 (Infinity, None, 0, 0) = (m, np, idx, fr)"
    by (metis prod_cases4)
  have "np = None \<longleftrightarrow> (\<forall>k < length cs - 1. \<forall>x. segment_distance distance p cs k \<noteq> Number x)"
    using findNearestPointOnLine_loop_null [of distance p cs 0 "(Infinity, None, 0, 0)"]
    by (simp add: l js_less_Infinity)
  then show ?thesis
    using False by (cases np) (auto simp: findNearestPointOnLine_def l)
qed

text \<open>
  When every distance comes out as \<open>NaN\<close>, as the code's does for the probe on the
  near-antipodal pair (0, 8), (180, -8), a two-point line has no nearest point and the
  probe is not off-route.
\<close>

lemma isOffRoute_NaN_distance:
  "isOffRoute (\<lambda>a b. NaN) p [Position2 0 8, Position2 180 (- 8)] (Some (Number 50)) = False
   \<and> findNearestPointOnLine (\<lambda>a b. NaN) p [Position2 0 8, Position2 180 (- 8)] = None"
proof -
  have "findNearestPointOnLine (\<lambda>a b. NaN) p [Position2 0 8, Position2 180 (- 8)] = None"
    by (simp add: findNearestPointOnLine_None_iff segment_distance_def
        nearestPointOnSegment_def Let_def)
  then show ?thesis by (simp add: isOffRoute_def)
qed

text \<open>
  Claim C7: for every probe point, polyline and threshold, and whatever the distance
  computation returns (\<open>NaN\<close> included), \<open>isOffRoute\<close> is false when the polyline has
  fewer than 2 points; it is true exactly when \<open>findNearestPointOnLine\<close> has a result
  whose distance is strictly above the threshold, so with the threshold equal to that
  distance it is false; and an omitted threshold is 50.
\<close>

theorem C7_isOffRoute_threshold:
  "(length cs < 2 \<longrightarrow> \<not> isOffRoute distance p cs (Some t)) \<and>
   (isOffRoute distance p cs (Some t) \<longleftrightarrow>
      (\<exists>r. findNearestPointOnLine distance p cs = Some r \<and> js_greater (np_distance r) t)) \<and>
   (findNearestPointOnLine distance p cs = Some r \<longrightarrow>
      \<not> isOffRoute distance p cs (Some (np_distance r))) \<and>
   (isOffRoute distance p cs None \<longleftrightarrow> isOffRoute distance p cs (Some (Number 50)))"
proof (intro conjI impI)
  assume "length cs < 2"
  then show "\<not> isOffRoute distance p cs (Some t)"
    by (simp add: isOffRoute_def findNearestPointOnLine_def)
next
  show "isOffRoute distance p cs (Some t) \<longleftrightarrow>
      (\<exists>r. findNearestPointOnLine distance p cs = Some r \<and> js_greater (np_distance r) t)"
    by (simp add: isOffRoute_def split: option.splits)
next
  assume "findNearestPointOnLine distance p cs = Some r"
  then show "\<not> isOffRoute distance p cs (Some (np_distance r))"
    by (simp add: isOffRoute_def js_greater_def js_less_irrefl)
next
  show "isOffRoute distance p cs None \<longleftrightarrow> isOffRoute distance p cs (Some (Number 50))"
    by (simp add: isOffRoute_def)
qed

lemma nearest_on_line_example:
  "findNearestPointOnLine exact_distance \<lparr>longitude = 0, latitude = 0\<rparr>
       [Position2 0 0, Position2 0 1]
     = Some \<lparr>np_point = \<lparr>longitude = 0, latitude = 0\<rparr>, np_distance = Number 0,
             np_segmentIndex = 0, np_segmentFraction = 0\<rparr>"
  by (simp add: findNearestPointOnLine_def findNearestPointOnLine_loop.simps Let_def
      nearestPointOnSegment_def exact_distance_def calculateDistance_self)

theorem C7_isOffRoute_threshold_witness:
  "length ([] :: position list) < 2 \<and>
   \<not> isOffRoute exact_distance \<lparr>longitude = 0, latitude = 0\<rparr> [] (Some (Number 50)) \<and>
   findNearestPointOnLine exact_distance \<lparr>longitude = 0, latitude = 0\<rparr>
       [Position2 0 0, Position2 0 1]
     = Some \<lparr>np_point = \<lparr>longitude = 0, latitude = 0\<rparr>, np_distance = Number 0,
             np_segmentIndex = 0, np_segmentFraction = 0\<rparr> \<and>
   \<not> isOffRoute exact_distance \<lparr>longitude = 0, latitude = 0\<rparr>
       [Position2 0 0, Position2 0 1] (Some (Number 0))"
proof -
  have a: "length ([] :: position list) < 2" by simp
  note b = nearest_on_line_example
  from C7_isOffRoute_threshold
         [of "[]" exact_distance "\<lparr>longitude = 0, latitude = 0\<rparr>" "Number 50"] a
  have c: "\<not> isOffRoute exact_distance \<lparr>longitude = 0, latitude = 0\<rparr> [] (Some (Number 50))"
    by blast
  from C7_isOffRoute_threshold
         [of "[Position2 0 0, Position2 0 1]" exact_distance "\<lparr>longitude = 0, latitude = 0\<rparr>"
             "Number 50"
             "\<lparr>np_point = \<lparr>longitude = 0, latitude = 0\<rparr>, np_distance = Number 0,
               np_segmentIndex = 0, np_segmentFraction = 0\<rparr>"] b
  have d: "\<not> isOffRoute exact_distance \<lparr>longitude = 0, latitude = 0\<rparr>
       [Position2 0 0, Position2 0 1] (Some (Number 0))"
    by simp
  from a c b d show ?thesis by blast
qed

section \<open>Waypoint store: the index invariant\<close>

lemma length_reindex: "length (reindex ws) = length ws"
  by (simp add: reindex_def)

lemma map_index_enumerate:
  "map wp_index (map (\<lambda>(index, wp). wp\<lparr>wp_index := int index\<rparr>) (enumerate 0 ws))
     = map int [0 ..< length ws]"
proof -
  have "map wp_index (map (\<lambda>(index, wp). wp\<lparr>wp_index := int index\<rparr>) (enumerate 0 ws))
      = map (int \<circ> fst) (enumerate 0 ws)"
    by (simp add: case_prod_beta comp_def)
  also have "\<dots> = map int (map fst (enumerate 0 ws))"
    by (simp only: map_map)
  also have "\<dots> = map int [0 ..< length ws]"
    by (simp only: map_fst_enumerate add_0)
  finally show ?thesis .
qed

lemma index_invariant_reindex: "index_invariant (reindex ws)"
  unfolding index_invariant_def length_reindex
  by (simp only: reindex_def map_index_enumerate)

lemma index_invariant_setAll: "index_invariant (WaypointRepository_setAll ws new_ws)"
  unfolding index_invariant_def WaypointRepository_setAll_def
  by (simp only: map_index_enumerate length_map length_enumerate)

lemma index_invariant_add:
  "index_invariant ws \<Longrightarrow> index_invariant (snd (WaypointRepository_add ws c name new_id now))"
  by (simp add: index_invariant_def WaypointRepository_add_def Let_def)

lemma index_invariant_insert:
  "index_invariant (snd (WaypointRepository_insert ws c i name new_id now))"
  by (simp add: WaypointRepository_insert_def Let_def index_invariant_reindex)

lemma index_invariant_remove:
  "index_invariant ws \<Longrightarrow> index_invariant (snd (WaypointRepository_remove ws ident))"
  by (simp add: WaypointRepository_remove_def Let_def index_invariant_reindex split: prod.splits)

lemma index_invariant_reorder:
  "index_invariant ws \<Longrightarrow> index_invariant (snd (WaypointRepository_reorder ws a b))"
  by (simp add: WaypointRepository_reorder_def Let_def index_invariant_reindex split: prod.splits)

lemma js_findIndex_range:
  "js_findIndex P xs \<noteq> - 1 \<Longrightarrow> 0 \<le> js_findIndex P xs \<and> js_findIndex P xs < int (length xs)"
  by (induction xs) (auto simp: Let_def split: if_splits)

lemma index_invariant_update:
  assumes "index_invariant ws"
  shows "index_invariant (snd (WaypointRepository_update ws ident c))"
proof (cases "js_findIndex (\<lambda>wp. wp_id wp = ident) ws = - 1")
  case True
  then show ?thesis using assms by (simp add: WaypointRepository_update_def)
next
  case False
  define i where "i = nat (js_findIndex (\<lambda>wp. wp_id wp = ident) ws)"
  from js_findIndex_range [OF False] have lt: "i < length ws" unfolding i_def by linarith
  have "map wp_index (ws[i := (ws ! i)\<lparr>wp_longitude := longitude c, wp_latitude := latitude c\<rparr>])
      = (map wp_index ws)[i := wp_index (ws ! i)]"
    by (simp add: map_update)
  also have "\<dots> = map wp_index ws"
    using lt by (metis list_update_id nth_map)
  finally show ?thesis
    using assms False
    by (simp add: WaypointRepository_update_def Let_def index_invariant_def i_def)
qed

lemma index_invariant_step:
  "index_invariant ws \<Longrightarrow> index_invariant (store_step ws call)"
  by (cases call)
     (simp_all add: index_invariant_add index_invariant_insert index_invariant_remove
        index_invariant_update index_invariant_reorder index_invariant_setAll
        WaypointRepository_clear_def index_invariant_def [of "[]"])

lemma index_invariant_run:
  "index_invariant ws \<Longrightarrow> index_invariant (store_run ws calls)"
  by (induction calls arbitrary: ws) (simp_all add: index_invariant_step)

text \<open>
  Claim C4: for every sequence of store operations (add, insert, remove, update, reorder,
  setAll, clear) on a new store, after each operation of the sequence, that is after
  every prefix of it, the \<open>index\<close> fields of the waypoints are \<open>0, ..., count - 1\<close> in
  list order.
\<close>

theorem C4_index_invariant: "index_invariant (store_run [] (take n calls))"
  by (rule index_invariant_run) (simp add: index_invariant_def)

theorem C4_index_invariant_witness:
  "index_invariant (store_run []
     (take 3 [StoreAdd \<lparr>longitude = 0, latitude = 0\<rparr> None ''a'' 1,
              StoreInsert \<lparr>longitude = 1, latitude = 1\<rparr> 0 None ''b'' 2,
              StoreRemove ''b'',
              StoreClear]))"
  by (rule C4_index_invariant)

section \<open>History manager: bounded history\<close>

lemma js_slice_prefix:
  "- 1 \<le> c \<Longrightarrow> js_slice xs 0 (c + 1) = take (nat (c + 1)) xs"
  by (auto simp: js_slice_def Let_def min_def)

lemma js_slice_from_suffix:
  "1 \<le> m \<Longrightarrow> js_slice_from xs (- m) = drop (length xs - nat m) xs"
  by (auto simp: js_slice_from_def js_slice_def Let_def max_def nat_diff_distrib')

lemma js_slice_empty: "js_slice [] a b = []"
  by (simp add: js_slice_def)

lemma push_full:
  assumes "currentIndex h = int (length (history h)) - 1" and "1 \<le> maxSize h"
  shows "history (HistoryManagerImpl_push h ws action now)
           = lastn (nat (maxSize h)) (history h @ [entry_of (ws, action, now)])"
    and "currentIndex (HistoryManagerImpl_push h ws action now)
           = int (length (history (HistoryManagerImpl_push h ws action now))) - 1"
    and "maxSize (HistoryManagerImpl_push h ws action now) = maxSize h"
proof -
  have k: "js_slice (history h) 0 (currentIndex h + 1) = history h"
    using assms(1) js_slice_prefix [of "currentIndex h" "history h"] by simp
  show "history (HistoryManagerImpl_push h ws action now)
           = lastn (nat (maxSize h)) (history h @ [entry_of (ws, action, now)])"
    using assms(2)
    by (auto simp: HistoryManagerImpl_push_def Let_def k js_slice_from_suffix lastn_def)
  show "currentIndex (HistoryManagerImpl_push h ws action now)
           = int (length (history (HistoryManagerImpl_push h ws action now))) - 1"
    by (simp add: HistoryManagerImpl_push_def Let_def)
  show "maxSize (HistoryManagerImpl_push h ws action now) = maxSize h"
    by (simp add: HistoryManagerImpl_push_def Let_def)
qed

lemma lastn_append_lastn: "lastn m (lastn m ys @ zs) = lastn m (ys @ zs)"
proof (cases "length ys \<le> m")
  case True
  then show ?thesis by (simp add: lastn_def)
next
  case False
  then show ?thesis by (simp add: lastn_def add.commute)
qed

lemma length_lastn: "length (lastn m ys) \<le> m"
  by (simp add: lastn_def)

lemma push_all_full:
  assumes "currentIndex h = int (length (history h)) - 1" and "1 \<le> maxSize h"
    and "length (history h) \<le> nat (maxSize h)"
  shows "history (push_all h xs) = lastn (nat (maxSize h)) (history h @ map entry_of xs)
       \<and> currentIndex (push_all h xs) = int (length (history (push_all h xs))) - 1
       \<and> maxSize (push_all h xs) = maxSize h"
  using assms
proof (induction xs arbitrary: h)
  case Nil
  then show ?case by (simp add: lastn_def)
next
  case (Cons x xs)
  obtain ws action now where x: "x = (ws, action, now)" by (cases x) auto
  let ?h = "HistoryManagerImpl_push h ws action now"
  note p = push_full [OF Cons.prems(1,2), of ws action now]
  have m: "1 \<le> maxSize ?h" using p(3) Cons.prems(2) by simp
  have l: "length (history ?h) \<le> nat (maxSize ?h)"
    by (simp only: p(1) p(3) length_lastn)
  from Cons.IH [OF p(2) m l]
  show ?case
    by (simp add: x p(1) p(3) lastn_append_lastn)
qed

lemma undo_times_Suc:
  "fst (undo_times (Suc n) h)
     = fst (HistoryManagerImpl_undo h) # fst (undo_times n (snd (HistoryManagerImpl_undo h)))"
  by (simp add: split_beta Let_def)

lemma butlast_map_nth: "butlast ys = map (\<lambda>i. ys ! i) [0 ..< length ys - 1]"
  by (rule nth_equalityI) (auto simp: nth_butlast)

lemma undo_times_results:
  assumes "0 \<le> currentIndex h" and "currentIndex h < int (length (history h))"
  shows "fst (undo_times n h)
           = map (\<lambda>i. Some (history h ! i)) (take n (rev [0 ..< nat (currentIndex h)]))
             @ replicate (n - nat (currentIndex h)) None"
  using assms
proof (induction n arbitrary: h)
  case 0
  then show ?case by simp
next
  case (Suc n)
  show ?case
  proof (cases "currentIndex h > 0")
    case True
    define c where "c = nat (currentIndex h) - 1"
    have ci: "currentIndex h = int (Suc c)" using True by (simp add: c_def)
    let ?h = "h\<lparr>currentIndex := currentIndex h - 1\<rparr>"
    have u: "HistoryManagerImpl_undo h = (Some (history h ! c), ?h)"
      using True Suc.prems
      by (simp add: HistoryManagerImpl_undo_def HistoryManagerImpl_canUndo_def Let_def js_nth_def ci)
    have ih: "fst (undo_times n ?h)
           = map (\<lambda>i. Some (history h ! i)) (take n (rev [0 ..< c]))
             @ replicate (n - c) None"
      using Suc.IH [of ?h] Suc.prems by (simp add: ci)
    have nc: "nat (currentIndex h) = Suc c" by (simp only: ci nat_int)
    have r: "rev [0 ..< nat (currentIndex h)] = c # rev [0 ..< c]"
      by (simp only: nc upt_Suc_append [OF le0] rev_append rev.simps append_Nil append_Cons)
    show ?thesis
      by (simp only: undo_times_Suc u fst_conv snd_conv ih r take_Suc_Cons list.map append_Cons)
         (simp add: nc)
  next
    case False
    with Suc.prems have z: "currentIndex h = 0" by simp
    have u: "HistoryManagerImpl_undo h = (None, h)"
      by (simp add: HistoryManagerImpl_undo_def HistoryManagerImpl_canUndo_def z)
    have ih: "fst (undo_times n h) = replicate n None"
      using Suc.IH [of h] Suc.prems by (simp add: z)
    show ?thesis
      by (simp only: undo_times_Suc u fst_conv snd_conv ih) (simp add: z)
  qed
qed

text \<open>
  Claim C5: for every \<open>maxSize \<ge> 1\<close> and \<open>k \<ge> 1\<close>, after \<open>maxSize + k\<close> pushes into a new
  history manager the retained entries are the pushed ones without the \<open>k\<close> oldest,
  exactly \<open>maxSize\<close> of them; and \<open>n\<close> \<open>undo\<close> calls in a row return the retained entries
  below the newest, from newer to older down to the oldest retained entry, and then
  nothing (\<open>null\<close>): never an evicted entry.
\<close>

theorem C5_bounded_history:
  assumes "1 \<le> m" and "1 \<le> k" and "length xs = nat m + k"
  shows "history (push_all (new_HistoryManagerImpl m) xs) = drop k (map entry_of xs)
       \<and> HistoryManagerImpl_getSize (push_all (new_HistoryManagerImpl m) xs) = m
       \<and> fst (undo_times n (push_all (new_HistoryManagerImpl m) xs))
           = map Some (take n (rev (butlast (drop k (map entry_of xs)))))
             @ replicate (n - (nat m - 1)) None"
proof -
  let ?h = "push_all (new_HistoryManagerImpl m) xs"
  have pa: "history ?h = lastn (nat m) (map entry_of xs)"
       "currentIndex ?h = int (length (history ?h)) - 1"
    using push_all_full [of "new_HistoryManagerImpl m" xs] assms(1)
    by (simp_all add: new_HistoryManagerImpl_def)
  have h: "history ?h = drop k (map entry_of xs)"
    using assms by (simp add: pa(1) lastn_def)
  have len: "length (history ?h) = nat m"
    using assms by (simp add: h)
  have ci: "currentIndex ?h = m - 1" using pa(2) len assms(1) by simp
  have "fst (undo_times n ?h)
      = map (\<lambda>i. Some (history ?h ! i)) (take n (rev [0 ..< nat (m - 1)]))
        @ replicate (n - nat (m - 1)) None"
    using undo_times_results [of ?h n] ci len assms(1) by simp
  moreover have "map (\<lambda>i. Some (history ?h ! i)) (take n (rev [0 ..< nat (m - 1)]))
      = map Some (take n (rev (butlast (history ?h))))"
  proof -
    have "butlast (history ?h) = map (\<lambda>i. history ?h ! i) [0 ..< nat (m - 1)]"
      using len assms(1) butlast_map_nth [of "history ?h"]
      by (simp add: nat_diff_distrib')
    then show ?thesis
      by (simp add: rev_map take_map)
  qed
  moreover have "nat (m - 1) = nat m - 1" using assms(1) by simp
  ultimately show ?thesis
    using h len assms(1) by (simp add: HistoryManagerImpl_getSize_def)
qed

theorem C5_bounded_history_witness:
  "(1::int) \<le> 2 \<and> (1::nat) \<le> 1 \<and>
   length [([] :: waypoint list, ActionAdd, 1 :: int), ([], ActionAdd, 2),
           ([], ActionRemove, 3)] = nat 2 + 1 \<and>
   history (push_all (new_HistoryManagerImpl 2)
              [([], ActionAdd, 1), ([], ActionAdd, 2), ([], ActionRemove, 3)])
     = drop 1 (map entry_of [([], ActionAdd, 1), ([], ActionAdd, 2), ([], ActionRemove, 3)]) \<and>
   HistoryManagerImpl_getSize (push_all (new_HistoryManagerImpl 2)
              [([], ActionAdd, 1), ([], ActionAdd, 2), ([], ActionRemove, 3)]) = 2 \<and>
   fst (undo_times 3 (push_all (new_HistoryManagerImpl 2)
              [([], ActionAdd, 1), ([], ActionAdd, 2), ([], ActionRemove, 3)]))
     = map Some (take 3 (rev (butlast (drop 1
         (map entry_of [([], ActionAdd, 1), ([], ActionAdd, 2), ([], ActionRemove, 3)])))))
       @ replicate (3 - (nat 2 - 1)) None"
proof -
  have a: "(1::int) \<le> 2" and b: "(1::nat) \<le> 1"
    and c: "length [([]::waypoint list, ActionAdd, 1::int), ([], ActionAdd, 2),
                    ([], ActionRemove, 3)] = nat 2 + 1"
    by simp_all
  from a b c C5_bounded_history [OF a b c, of 3] show ?thesis by blast
qed

section \<open>Event channel: registering a listener twice\<close>

lemma distinct_js_set_add: "distinct s \<Longrightarrow> distinct (js_set_add s x)"
  by (simp add: js_set_add_def)

lemma distinct_js_set_delete: "distinct s \<Longrightarrow> distinct (js_set_delete s x)"
  by (simp add: js_set_delete_def)

lemma bus_distinct_register:
  "bus_distinct bus \<Longrightarrow> bus_distinct (register_listener bus event l)"
  by (auto simp: bus_distinct_def register_listener_def Let_def distinct_js_set_add
      split: option.splits)

lemma bus_distinct_unregister:
  "bus_distinct bus \<Longrightarrow> bus_distinct (unregister_listener bus event l)"
  by (auto simp: bus_distinct_def unregister_listener_def distinct_js_set_delete
      split: option.splits)

lemma bus_distinct_emit_loop:
  "bus_distinct bus \<Longrightarrow> bus_distinct (snd (emit_loop bus event ls invoked))"
proof (induction ls arbitrary: bus invoked)
  case Nil
  then show ?case by simp
next
  case (Cons l ls)
  then show ?case
    by (cases l) (simp_all add: bus_distinct_unregister)
qed

lemma bus_distinct_step: "bus_distinct bus \<Longrightarrow> bus_distinct (bus_step bus call)"
proof (cases call)
  case (BusOnce event f)
  assume "bus_distinct bus"
  then have "bus_distinct (bus\<lparr>next_closure := next_closure bus + 1\<rparr>)"
    by (simp add: bus_distinct_def)
  then show ?thesis
    by (simp add: BusOnce EventBusImpl_once_def Let_def bus_distinct_register)
next
  case (BusEmit event)
  assume "bus_distinct bus"
  then show ?thesis
    by (simp add: BusEmit EventBusImpl_emit_def bus_distinct_emit_loop split: option.splits)
next
  case (BusRemoveAllListeners event)
  assume "bus_distinct bus"
  then show ?thesis
    by (auto simp: BusRemoveAllListeners EventBusImpl_removeAllListeners_def bus_distinct_def
        split: option.splits)
qed (simp_all add: EventBusImpl_on_def EventBusImpl_off_def bus_distinct_register
      bus_distinct_unregister)

lemma bus_distinct_run: "bus_distinct bus \<Longrightarrow> bus_distinct (bus_run bus calls)"
  by (induction calls arbitrary: bus) (simp_all add: bus_distinct_step)

lemma bus_distinct_new: "bus_distinct new_EventBusImpl"
  by (simp add: bus_distinct_def new_EventBusImpl_def)

lemma on_twice: "EventBusImpl_on (EventBusImpl_on bus event f) event f = EventBusImpl_on bus event f"
  by (simp add: EventBusImpl_on_def register_listener_def js_set_add_def Let_def)

lemma emit_loop_count:
  assumes "listeners bus event = Some s" and "Plain f \<in> set s"
  shows "count_list (fst (emit_loop bus event ls invoked)) (Plain f)
           = count_list invoked (Plain f) + count_list ls (Plain f)"
  using assms
proof (induction ls arbitrary: bus invoked s)
  case Nil
  then show ?case by simp
next
  case (Cons l ls)
  show ?case
  proof (cases l)
    case (Plain g)
    with Cons.prems Cons.IH [OF Cons.prems] show ?thesis by auto
  next
    case (OnceWrapper w g)
    let ?bus = "unregister_listener bus event l"
    have a: "listeners ?bus event = Some (js_set_delete s l)"
      using Cons.prems(1) by (simp add: unregister_listener_def)
    have b: "Plain f \<in> set (js_set_delete s l)"
      using Cons.prems(2) OnceWrapper by (simp add: js_set_delete_def)
    show ?thesis
      using Cons.IH [OF a b] Cons.IH [OF Cons.prems] OnceWrapper Cons.prems by simp
  qed
qed

lemma emit_loop_subset:
  "set (fst (emit_loop bus event ls invoked)) \<subseteq> set invoked \<union> set ls"
proof (induction ls arbitrary: bus invoked)
  case Nil
  then show ?case by simp
next
  case (Cons l ls)
  have a: "set (fst (emit_loop bus event ls invoked)) \<subseteq> set invoked \<union> set ls"
    and b: "\<And>b. set (fst (emit_loop b event ls (invoked @ [l]))) \<subseteq> set (invoked @ [l]) \<union> set ls"
    using Cons.IH by blast+
  show ?case
    using a b by (cases l) (auto split: if_splits)
qed

lemma distinct_count_one: "distinct s \<Longrightarrow> x \<in> set s \<Longrightarrow> count_list s x = 1"
  by (induction s) auto

lemma registered_once:
  assumes "bus_distinct bus"
  shows "\<exists>s. listeners (EventBusImpl_on bus event f) event = Some s
            \<and> count_list s (Plain f) = 1"
proof -
  let ?b = "EventBusImpl_on bus event f"
  have d: "bus_distinct ?b"
    using assms by (simp add: EventBusImpl_on_def bus_distinct_register)
  obtain s where s: "listeners ?b event = Some s" and m: "Plain f \<in> set s"
    by (auto simp: EventBusImpl_on_def register_listener_def js_set_add_def Let_def)
  from d s have "distinct s" by (auto simp: bus_distinct_def)
  with m have "count_list s (Plain f) = 1"
    by (simp add: distinct_count_one)
  with s show ?thesis by simp
qed

lemma emit_after_on:
  assumes "bus_distinct bus"
  shows "count_list (fst (EventBusImpl_emit (EventBusImpl_on bus event f) event)) (Plain f) = 1"
proof -
  obtain s where s: "listeners (EventBusImpl_on bus event f) event = Some s"
    and c: "count_list s (Plain f) = 1"
    using registered_once [OF assms] by blast
  from c have m: "Plain f \<in> set s"
    by (metis count_list_0_iff zero_neq_one)
  show ?thesis
    using emit_loop_count [OF s m, of s "[]"] c by (simp add: EventBusImpl_emit_def s)
qed

lemma emit_after_off:
  assumes "bus_distinct bus"
  shows "Plain f \<notin> set (fst (EventBusImpl_emit (EventBusImpl_off bus event f) event))"
proof (cases "listeners bus event")
  case None
  then show ?thesis
    by (simp add: EventBusImpl_off_def unregister_listener_def EventBusImpl_emit_def)
next
  case (Some s)
  with assms have d: "distinct s" by (auto simp: bus_distinct_def)
  have l: "listeners (EventBusImpl_off bus event f) event = Some (remove1 (Plain f) s)"
    using Some by (simp add: EventBusImpl_off_def unregister_listener_def js_set_delete_def)
  have "Plain f \<notin> set (remove1 (Plain f) s)"
    using d by simp
  then show ?thesis
    using emit_loop_subset [of "EventBusImpl_off bus event f" event "remove1 (Plain f) s" "[]"]
    by (auto simp: EventBusImpl_emit_def l)
qed

text \<open>
  Claim C10: on a bus in any state its clients can bring it to, for every event name
  and listener function \<open>f\<close>, calling \<open>on\<close> twice with \<open>f\<close> leaves the bus as one call
  does; an \<open>emit\<close> of that event then invokes \<open>f\<close> exactly once; and after a single
  \<open>off\<close> (which is what the unsubscribe handle calls) an \<open>emit\<close> does not invoke \<open>f\<close>.
\<close>

theorem C10_on_twice_registers_once:
  "EventBusImpl_on (EventBusImpl_on (bus_run new_EventBusImpl calls) event f) event f
     = EventBusImpl_on (bus_run new_EventBusImpl calls) event f
   \<and> count_list
        (fst (EventBusImpl_emit
           (EventBusImpl_on (EventBusImpl_on (bus_run new_EventBusImpl calls) event f) event f)
           event)) (Plain f) = 1
   \<and> Plain f \<notin> set
        (fst (EventBusImpl_emit
           (EventBusImpl_off
              (EventBusImpl_on (EventBusImpl_on (bus_run new_EventBusImpl calls) event f) event f)
              event f)
           event))"
proof -
  have d: "bus_distinct (bus_run new_EventBusImpl calls)"
    by (rule bus_distinct_run [OF bus_distinct_new])
  then have d2: "bus_distinct (EventBusImpl_on (bus_run new_EventBusImpl calls) event f)"
    by (simp add: EventBusImpl_on_def bus_distinct_register)
  show ?thesis
    by (simp only: on_twice emit_after_on [OF d] emit_after_off [OF d2]) simp
qed

theorem C10_on_twice_registers_once_witness:
  "EventBusImpl_on (EventBusImpl_on
       (bus_run new_EventBusImpl [BusOnce EvRouteError (7::nat), BusOn EvRouteError 3])
       EvRouteError 7) EvRouteError 7
     = EventBusImpl_on
         (bus_run new_EventBusImpl [BusOnce EvRouteError (7::nat), BusOn EvRouteError 3])
         EvRouteError 7
   \<and> count_list
        (fst (EventBusImpl_emit
           (EventBusImpl_on (EventBusImpl_on
              (bus_run new_EventBusImpl [BusOnce EvRouteError (7::nat), BusOn EvRouteError 3])
              EvRouteError 7) EvRouteError 7)
           EvRouteError)) (Plain 7) = 1
   \<and> Plain 7 \<notin> set
        (fst (EventBusImpl_emit
           (EventBusImpl_off
              (EventBusImpl_on (EventBusImpl_on
                 (bus_run new_EventBusImpl [BusOnce EvRouteError (7::nat), BusOn EvRouteError 3])
                 EvRouteError 7) EvRouteError 7)
              EvRouteError 7)
           EvRouteError))"
  by (rule C10_on_twice_registers_once)

section \<open>Planner: the disposed flag\<close>

lemma recalculate_keeps_disposed:
  "RoutePlanner_recalculate p ev = Inr p' \<Longrightarrow> disposed p' = disposed p"
  by (auto simp: RoutePlanner_recalculate_def Let_def events_emit_def
      split: if_splits option.splits sum.splits)

lemma auto_recalculate_keeps_disposed:
  "auto_recalculate p ev r = Inr (r', p') \<Longrightarrow> disposed p' = disposed p"
  by (auto simp: auto_recalculate_def dest: recalculate_keeps_disposed
      split: if_splits sum.splits)

lemma guarded_result_not_disposed:
  assumes "calls_ensureNotDisposed call" and "RoutePlanner_call p call ev = Inr (r, p')"
  shows "\<not> disposed p'"
proof (cases call)
  case (AddWaypoint c name)
  with assms(2) show ?thesis
    by (auto simp: returning_def RoutePlanner_addWaypoint_def Let_def events_emit_def
        dest!: auto_recalculate_keeps_disposed split: if_splits sum.splits prod.splits)
next
  case (InsertWaypoint c i name)
  with assms(2) show ?thesis
    by (auto simp: returning_def RoutePlanner_insertWaypoint_def Let_def events_emit_def
        dest!: auto_recalculate_keeps_disposed split: if_splits sum.splits prod.splits)
next
  case (RemoveWaypoint ident)
  with assms(2) show ?thesis
    by (auto simp: returning_def RoutePlanner_removeWaypoint_def Let_def events_emit_def
        dest!: auto_recalculate_keeps_disposed
        split: if_splits sum.splits prod.splits option.splits)
next
  case (UpdateWaypoint ident c)
  with assms(2) show ?thesis
    by (auto simp: returning_def RoutePlanner_updateWaypoint_def Let_def events_emit_def
        dest!: auto_recalculate_keeps_disposed
        split: if_splits sum.splits prod.splits option.splits)
next
  case (ReorderWaypoints a b)
  with assms(2) show ?thesis
    by (auto simp: returning_def RoutePlanner_reorderWaypoints_def Let_def events_emit_def
        dest!: auto_recalculate_keeps_disposed split: if_splits sum.splits prod.splits)
next
  case ClearCall
  with assms(2) show ?thesis
    by (auto simp: returning_def RoutePlanner_clear_def Let_def events_emit_def
        split: if_splits sum.splits prod.splits)
next
  case Undo
  with assms(2) show ?thesis
    by (auto simp: returning_def RoutePlanner_undo_def Let_def events_emit_def
        dest!: auto_recalculate_keeps_disposed
        split: if_splits sum.splits prod.splits option.splits)
next
  case Redo
  with assms(2) show ?thesis
    by (auto simp: returning_def RoutePlanner_redo_def Let_def events_emit_def
        dest!: auto_recalculate_keeps_disposed
        split: if_splits sum.splits prod.splits option.splits)
next
  case Recalculate
  with assms(2) show ?thesis
    by (auto simp: RoutePlanner_recalculate_def Let_def events_emit_def
        split: if_splits sum.splits option.splits)
qed (use assms(1) in simp_all)

lemma unguarded_result_state:
  assumes "\<not> calls_ensureNotDisposed call" and "RoutePlanner_call p call ev = Inr (r, p')"
  shows "p' = p \<or> p' = RoutePlanner_dispose p"
  using assms by (cases call) (auto split: sum.splits)

lemma planner_invariant_call:
  assumes "planner_invariant p" and "RoutePlanner_call p call ev = Inr (r, p')"
  shows "planner_invariant p'"
proof (cases "calls_ensureNotDisposed call")
  case True
  from guarded_result_not_disposed [OF True assms(2)] show ?thesis
    by (simp add: planner_invariant_def)
next
  case False
  from unguarded_result_state [OF False assms(2)] assms(1) show ?thesis
    by (auto simp: planner_invariant_def RoutePlanner_dispose_def WaypointRepository_clear_def)
qed

lemma planner_invariant_new: "planner_invariant (new_RoutePlanner opts)"
  by (simp add: planner_invariant_def new_RoutePlanner_def)

lemma planner_invariant_run:
  "planner_invariant p \<Longrightarrow> RoutePlanner_run p calls = Inr p' \<Longrightarrow> planner_invariant p'"
proof (induction calls arbitrary: p)
  case Nil
  then show ?case by simp
next
  case (Cons c calls)
  obtain call ev where c: "c = (call, ev)" by (cases c)
  from Cons.prems(2) obtain r p1 where s: "RoutePlanner_call p call ev = Inr (r, p1)"
    and rest: "RoutePlanner_run p1 calls = Inr p'"
    by (auto simp: c split: sum.splits)
  from Cons.IH [OF planner_invariant_call [OF Cons.prems(1) s] rest] show ?case .
qed

lemma disposed_guarded:
  "disposed p \<Longrightarrow> calls_ensureNotDisposed call \<Longrightarrow> RoutePlanner_call p call ev = Inl Disposed"
  by (cases call)
     (simp_all add: returning_def RoutePlanner_addWaypoint_def RoutePlanner_insertWaypoint_def
        RoutePlanner_removeWaypoint_def RoutePlanner_updateWaypoint_def
        RoutePlanner_reorderWaypoints_def RoutePlanner_clear_def RoutePlanner_undo_def
        RoutePlanner_redo_def RoutePlanner_recalculate_def)

lemma dispose_idem: "RoutePlanner_dispose (RoutePlanner_dispose p) = RoutePlanner_dispose p"
  by (simp add: RoutePlanner_dispose_def WaypointRepository_clear_def HistoryManagerImpl_clear_def)

lemma disposed_unguarded:
  "\<not> calls_ensureNotDisposed call \<Longrightarrow>
   \<exists>r. RoutePlanner_call (RoutePlanner_dispose p) call ev = Inr (r, RoutePlanner_dispose p)"
  by (cases call)
     (simp_all add: dispose_idem RoutePlanner_getRemainingDistance_def,
      simp add: RoutePlanner_dispose_def)

text \<open>
  Claim C3, as stated, fails: on a planner that was disposed, the read-only operations
  \<open>getRoute\<close>, \<open>getStats\<close>, \<open>getWaypoints\<close>, \<open>canUndo\<close> and \<open>isOffRoute\<close> do not fail;
  they return \<open>null\<close>, \<open>null\<close>, the empty list, \<open>false\<close> and \<open>false\<close>.
\<close>

theorem C3_read_after_dispose_counterexample:
  "RoutePlanner_call (RoutePlanner_dispose (new_RoutePlanner DEFAULT_OPTIONS)) GetRoute
     \<lparr>env_new_id = ''a'', env_now = 1, env_provider = ProviderReturns None,
           env_step_ids = (\<lambda>i. '''')\<rparr>
     = Inr (RetRoute None, RoutePlanner_dispose (new_RoutePlanner DEFAULT_OPTIONS))
   \<and> RoutePlanner_call (RoutePlanner_dispose (new_RoutePlanner DEFAULT_OPTIONS)) GetStats
     \<lparr>env_new_id = ''a'', env_now = 1, env_provider = ProviderReturns None,
           env_step_ids = (\<lambda>i. '''')\<rparr>
     = Inr (RetStats None, RoutePlanner_dispose (new_RoutePlanner DEFAULT_OPTIONS))
   \<and> RoutePlanner_call (RoutePlanner_dispose (new_RoutePlanner DEFAULT_OPTIONS)) GetWaypoints
     \<lparr>env_new_id = ''a'', env_now = 1, env_provider = ProviderReturns None,
           env_step_ids = (\<lambda>i. '''')\<rparr>
     = Inr (RetWaypoints [], RoutePlanner_dispose (new_RoutePlanner DEFAULT_OPTIONS))
   \<and> RoutePlanner_call (RoutePlanner_dispose (new_RoutePlanner DEFAULT_OPTIONS)) CanUndo
     \<lparr>env_new_id = ''a'', env_now = 1, env_provider = ProviderReturns None,
           env_step_ids = (\<lambda>i. '''')\<rparr>
     = Inr (RetBool False, RoutePlanner_dispose (new_RoutePlanner DEFAULT_OPTIONS))
   \<and> RoutePlanner_call (RoutePlanner_dispose (new_RoutePlanner DEFAULT_OPTIONS))
       (IsOffRoute \<lparr>longitude = 0, latitude = 0\<rparr> None)
     \<lparr>env_new_id = ''a'', env_now = 1, env_provider = ProviderReturns None,
           env_step_ids = (\<lambda>i. '''')\<rparr>
     = Inr (RetBool False, RoutePlanner_dispose (new_RoutePlanner DEFAULT_OPTIONS))"
  by (simp add: RoutePlanner_dispose_def new_RoutePlanner_def new_HistoryManagerImpl_def
      RoutePlanner_getRoute_def RoutePlanner_getStats_def RoutePlanner_getWaypoints_def
      RoutePlanner_canUndo_def RoutePlanner_isOffRoute_def HistoryManagerImpl_canUndo_def
      HistoryManagerImpl_clear_def WaypointRepository_clear_def WaypointRepository_getAll_def)

lemma calculateRemainingLength_not_Disposed:
  "calculateRemainingLength cs i f \<noteq> Inl Disposed"
  by (simp add: calculateRemainingLength_def Let_def)

lemma unguarded_never_Disposed:
  "\<not> calls_ensureNotDisposed call \<Longrightarrow> RoutePlanner_call q call ev \<noteq> Inl Disposed"
proof (cases call)
  case (GetRemainingDistance c)
  show ?thesis
    using calculateRemainingLength_not_Disposed
    by (auto simp: GetRemainingDistance RoutePlanner_getRemainingDistance_def
        split: option.splits sum.splits if_splits)
qed simp_all

text \<open>
  The two parts of \<open>recalculate\<close> run one after the other are \<open>recalculate\<close>. When
  \<open>dispose()\<close> is called between them, the flag \<open>calculating\<close> is still set, and a
  successful calculation stores its route and stats in the disposed planner.
\<close>

lemma recalculate_start_resume:
  "RoutePlanner_recalculate p ev =
     (case RoutePlanner_recalculate_start p of
        Inl e \<Rightarrow> Inl e
      | Inr (Completed p') \<Rightarrow> Inr p'
      | Inr (Awaiting p1 waypoints) \<Rightarrow> Inr (RoutePlanner_recalculate_resume p1 waypoints ev))"
  by (simp add: RoutePlanner_recalculate_def RoutePlanner_recalculate_start_def
      RoutePlanner_recalculate_resume_def Let_def events_emit_def
      split: option.splits sum.splits)

lemma resume_keeps_disposed:
  "disposed (RoutePlanner_recalculate_resume p waypoints ev) = disposed p"
  by (simp add: RoutePlanner_recalculate_resume_def Let_def events_emit_def
      split: option.splits sum.splits)

lemma dispose_while_awaiting:
  assumes "RoutePlanner_recalculate_start p = Inr (Awaiting p1 waypoints)"
    and "env_provider ev = ProviderReturns (Some response)"
  shows "RoutePlanner_isCalculating (RoutePlanner_dispose p1)"
    and "disposed (RoutePlanner_recalculate_resume (RoutePlanner_dispose p1) waypoints ev)"
    and "RoutePlanner_getRoute (RoutePlanner_recalculate_resume (RoutePlanner_dispose p1) waypoints ev)
           \<noteq> None"
    and "RoutePlanner_getStats (RoutePlanner_recalculate_resume (RoutePlanner_dispose p1) waypoints ev)
           \<noteq> None"
proof -
  from assms(1) have w: "\<not> length waypoints < 2" and c: "calculating p1"
    by (auto simp: RoutePlanner_recalculate_start_def Let_def events_emit_def
        WaypointRepository_getAll_def split: if_splits option.splits)
  show "RoutePlanner_isCalculating (RoutePlanner_dispose p1)"
    using c by (simp add: RoutePlanner_isCalculating_def RoutePlanner_dispose_def)
  show "disposed (RoutePlanner_recalculate_resume (RoutePlanner_dispose p1) waypoints ev)"
    by (simp add: resume_keeps_disposed RoutePlanner_dispose_def)
  show "RoutePlanner_getRoute (RoutePlanner_recalculate_resume (RoutePlanner_dispose p1) waypoints ev)
           \<noteq> None"
    using w assms(2)
    by (simp add: RoutePlanner_recalculate_resume_def RouteCalculatorAdapter_calculate_def
        Let_def events_emit_def RoutePlanner_getRoute_def)
  show "RoutePlanner_getStats (RoutePlanner_recalculate_resume (RoutePlanner_dispose p1) waypoints ev)
           \<noteq> None"
    using w assms(2)
    by (simp add: RoutePlanner_recalculate_resume_def RouteCalculatorAdapter_calculate_def
        Let_def events_emit_def RoutePlanner_getStats_def)
qed

lemma start_awaits:
  "\<not> disposed p \<Longrightarrow> 2 \<le> length (waypointRepo p) \<Longrightarrow>
   \<exists>p1. RoutePlanner_recalculate_start p = Inr (Awaiting p1 (waypointRepo p))"
  by (simp add: RoutePlanner_recalculate_start_def Let_def WaypointRepository_getAll_def)

text \<open>
  Claim C3, amended: once \<open>dispose()\<close> has been called, every operation that changes the
  waypoints or the history (\<open>addWaypoint\<close>, \<open>insertWaypoint\<close>, \<open>removeWaypoint\<close>,
  \<open>updateWaypoint\<close>, \<open>reorderWaypoints\<close>, \<open>clear\<close>, \<open>undo\<close>, \<open>redo\<close>) and \<open>recalculate\<close>
  fails at once with the "disposed" error, in whatever state the planner is by then,
  and no other operation ever fails with it. Called on the state \<open>dispose()\<close> leaves,
  \<open>getRoute\<close> and \<open>getStats\<close> return \<open>null\<close>, \<open>getWaypoints\<close> and \<open>getNavigationSteps\<close> the
  empty list, \<open>canUndo\<close>, \<open>canRedo\<close> and \<open>isOffRoute\<close> \<open>false\<close>, \<open>getHistorySize\<close> 0,
  \<open>getNearestPointOnRoute\<close> and \<open>getRemainingDistance\<close> \<open>null\<close>, \<open>isDisposed\<close> \<open>true\<close>,
  \<open>isCalculating\<close> the value the flag had before \<open>dispose()\<close>, which does not reset it,
  and \<open>dispose()\<close> again changes nothing; each leaves the planner as it is.
\<close>

theorem C3_guarded_operations_fail_after_dispose:
  "(disposed q \<and> calls_ensureNotDisposed call \<longrightarrow> RoutePlanner_call q call ev = Inl Disposed)
   \<and> (\<not> calls_ensureNotDisposed call \<longrightarrow> RoutePlanner_call q call ev \<noteq> Inl Disposed)
   \<and> RoutePlanner_call (RoutePlanner_dispose p) GetRoute ev
        = Inr (RetRoute None, RoutePlanner_dispose p)
   \<and> RoutePlanner_call (RoutePlanner_dispose p) GetStats ev
        = Inr (RetStats None, RoutePlanner_dispose p)
   \<and> RoutePlanner_call (RoutePlanner_dispose p) GetWaypoints ev
        = Inr (RetWaypoints [], RoutePlanner_dispose p)
   \<and> RoutePlanner_call (RoutePlanner_dispose p) GetNavigationSteps ev
        = Inr (RetSteps [], RoutePlanner_dispose p)
   \<and> RoutePlanner_call (RoutePlanner_dispose p) IsCalculating ev
        = Inr (RetBool (calculating p), RoutePlanner_dispose p)
   \<and> RoutePlanner_call (RoutePlanner_dispose p) CanUndo ev
        = Inr (RetBool False, RoutePlanner_dispose p)
   \<and> RoutePlanner_call (RoutePlanner_dispose p) CanRedo ev
        = Inr (RetBool False, RoutePlanner_dispose p)
   \<and> RoutePlanner_call (RoutePlanner_dispose p) GetHistorySize ev
        = Inr (RetSize 0, RoutePlanner_dispose p)
   \<and> RoutePlanner_call (RoutePlanner_dispose p) (GetNearestPointOnRoute c) ev
        = Inr (RetNearest None, RoutePlanner_dispose p)
   \<and> RoutePlanner_call (RoutePlanner_dispose p) (IsOffRoute c threshold) ev
        = Inr (RetBool False, RoutePlanner_dispose p)
   \<and> RoutePlanner_call (RoutePlanner_dispose p) (GetRemainingDistance c) ev
        = Inr (RetDistance None, RoutePlanner_dispose p)
   \<and> RoutePlanner_call (RoutePlanner_dispose p) IsDisposed ev
        = Inr (RetBool True, RoutePlanner_dispose p)
   \<and> RoutePlanner_call (RoutePlanner_dispose p) Dispose ev
        = Inr (RetVoid, RoutePlanner_dispose p)"
proof (intro conjI impI)
  assume "disposed q \<and> calls_ensureNotDisposed call"
  then show "RoutePlanner_call q call ev = Inl Disposed"
    by (simp add: disposed_guarded)
next
  assume "\<not> calls_ensureNotDisposed call"
  then show "RoutePlanner_call q call ev \<noteq> Inl Disposed"
    by (rule unguarded_never_Disposed)
next
  show "RoutePlanner_call (RoutePlanner_dispose p) Dispose ev
        = Inr (RetVoid, RoutePlanner_dispose p)"
    by (simp add: dispose_idem)
qed (simp_all add: RoutePlanner_dispose_def RoutePlanner_getRoute_def RoutePlanner_getStats_def
      RoutePlanner_getWaypoints_def RoutePlanner_getNavigationSteps_def
      RoutePlanner_isCalculating_def RoutePlanner_canUndo_def RoutePlanner_canRedo_def
      RoutePlanner_getHistorySize_def RoutePlanner_getNearestPointOnRoute_def
      RoutePlanner_isOffRoute_def RoutePlanner_getRemainingDistance_def
      RoutePlanner_isDisposed_def HistoryManagerImpl_canUndo_def HistoryManagerImpl_canRedo_def
      HistoryManagerImpl_getSize_def HistoryManagerImpl_clear_def WaypointRepository_clear_def
      WaypointRepository_getAll_def)

theorem C3_guarded_operations_fail_after_dispose_witness:
  "disposed (RoutePlanner_dispose (new_RoutePlanner DEFAULT_OPTIONS)) \<and>
   calls_ensureNotDisposed Undo \<and>
   RoutePlanner_call (RoutePlanner_dispose (new_RoutePlanner DEFAULT_OPTIONS)) Undo
     \<lparr>env_new_id = ''a'', env_now = 1, env_provider = ProviderReturns None,
      env_step_ids = (\<lambda>i. '''')\<rparr> = Inl Disposed \<and>
   \<not> calls_ensureNotDisposed GetStats \<and>
   RoutePlanner_call (RoutePlanner_dispose (new_RoutePlanner DEFAULT_OPTIONS)) GetStats
     \<lparr>env_new_id = ''a'', env_now = 1, env_provider = ProviderReturns None,
      env_step_ids = (\<lambda>i. '''')\<rparr> \<noteq> Inl Disposed \<and>
   RoutePlanner_call (RoutePlanner_dispose (new_RoutePlanner DEFAULT_OPTIONS)) GetStats
     \<lparr>env_new_id = ''a'', env_now = 1, env_provider = ProviderReturns None,
      env_step_ids = (\<lambda>i. '''')\<rparr>
     = Inr (RetStats None, RoutePlanner_dispose (new_RoutePlanner DEFAULT_OPTIONS))"
proof -
  have a: "disposed (RoutePlanner_dispose (new_RoutePlanner DEFAULT_OPTIONS))
             \<and> calls_ensureNotDisposed Undo"
    by (simp add: RoutePlanner_dispose_def)
  have b: "\<not> calls_ensureNotDisposed GetStats" by simp
  note t1 = C3_guarded_operations_fail_after_dispose
              [where q = "RoutePlanner_dispose (new_RoutePlanner DEFAULT_OPTIONS)"
                 and call = Undo
                 and ev = "\<lparr>env_new_id = ''a'', env_now = 1, env_provider = ProviderReturns None,
      env_step_ids = (\<lambda>i. '''')\<rparr>"]
  note t2 = C3_guarded_operations_fail_after_dispose
              [where q = "RoutePlanner_dispose (new_RoutePlanner DEFAULT_OPTIONS)"
                 and call = GetStats
                 and p = "new_RoutePlanner DEFAULT_OPTIONS"
                 and ev = "\<lparr>env_new_id = ''a'', env_now = 1, env_provider = ProviderReturns None,
      env_step_ids = (\<lambda>i. '''')\<rparr>"]
  from t1 a have c: "RoutePlanner_call (RoutePlanner_dispose (new_RoutePlanner DEFAULT_OPTIONS))
      Undo \<lparr>env_new_id = ''a'', env_now = 1, env_provider = ProviderReturns None,
      env_step_ids = (\<lambda>i. '''')\<rparr> = Inl Disposed" by blast
  from t2 b have d: "RoutePlanner_call (RoutePlanner_dispose (new_RoutePlanner DEFAULT_OPTIONS))
      GetStats \<lparr>env_new_id = ''a'', env_now = 1, env_provider = ProviderReturns None,
      env_step_ids = (\<lambda>i. '''')\<rparr> \<noteq> Inl Disposed" by blast
  from t2 have e: "RoutePlanner_call (RoutePlanner_dispose (new_RoutePlanner DEFAULT_OPTIONS))
      GetStats \<lparr>env_new_id = ''a'', env_now = 1, env_provider = ProviderReturns None,
      env_step_ids = (\<lambda>i. '''')\<rparr>
     = Inr (RetStats None, RoutePlanner_dispose (new_RoutePlanner DEFAULT_OPTIONS))" by blast
  from a c b d e show ?thesis by blast
qed

section \<open>Planner: a failed calculation\<close>

lemma recalculate_failure:
  assumes "planner_invariant p" and "2 \<le> length (RoutePlanner_getWaypoints p)"
    and "env_provider ev = ProviderRaises msg \<or> env_provider ev = ProviderReturns None"
  shows "RoutePlanner_recalculate p ev =
           Inr (p\<lparr>calculating := False,
                  emitted := emitted p @
                    [RouteCalculating (int (length (RoutePlanner_getWaypoints p))),
                     RouteError (case env_provider ev of
                                   ProviderRaises m \<Rightarrow> m
                                 | ProviderReturns r \<Rightarrow> ''Failed to calculate directions'')
                       (int (length (RoutePlanner_getWaypoints p)))]\<rparr>)"
proof -
  from assms(1,2) have nd: "\<not> disposed p"
    by (auto simp: planner_invariant_def RoutePlanner_getWaypoints_def
        WaypointRepository_getAll_def)
  from assms(2) have len: "\<not> length (waypointRepo p) < 2"
    by (simp add: RoutePlanner_getWaypoints_def WaypointRepository_getAll_def)
  from assms(3) show ?thesis
  proof
    assume "env_provider ev = ProviderRaises msg"
    then show ?thesis
      using nd len
      by (simp add: RoutePlanner_recalculate_def Let_def RoutePlanner_getWaypoints_def
          WaypointRepository_getAll_def RouteCalculatorAdapter_calculate_def events_emit_def)
  next
    assume "env_provider ev = ProviderReturns None"
    then show ?thesis
      using nd len
      by (simp add: RoutePlanner_recalculate_def Let_def RoutePlanner_getWaypoints_def
          WaypointRepository_getAll_def RouteCalculatorAdapter_calculate_def events_emit_def)
  qed
qed

text \<open>
  Claim C8: for every planner state with at least 2 waypoints, when the directions
  source raises or returns none, \<open>recalculate\<close> returns normally, the current route and
  the current stats are what they were before the call, and the events emitted by the
  call are \<open>route:calculating\<close> and then \<open>route:error\<close> carrying the error description
  (the raised message, or "Failed to calculate directions") and the waypoint count.
\<close>

theorem C8_recalculate_failure:
  assumes "planner_invariant p" and "2 \<le> length (RoutePlanner_getWaypoints p)"
    and "env_provider ev = ProviderRaises msg \<or> env_provider ev = ProviderReturns None"
  shows "\<exists>p'. RoutePlanner_recalculate p ev = Inr p'
          \<and> RoutePlanner_getRoute p' = RoutePlanner_getRoute p
          \<and> RoutePlanner_getStats p' = RoutePlanner_getStats p
          \<and> RoutePlanner_getWaypoints p' = RoutePlanner_getWaypoints p
          \<and> emitted p' = emitted p @
               [RouteCalculating (int (length (RoutePlanner_getWaypoints p))),
                RouteError (case env_provider ev of
                              ProviderRaises m \<Rightarrow> m
                            | ProviderReturns r \<Rightarrow> ''Failed to calculate directions'')
                  (int (length (RoutePlanner_getWaypoints p)))]"
  by (simp add: recalculate_failure [OF assms] RoutePlanner_getRoute_def RoutePlanner_getStats_def
      RoutePlanner_getWaypoints_def)

theorem C8_recalculate_failure_witness:
  "planner_invariant ((new_RoutePlanner DEFAULT_OPTIONS)
      \<lparr>waypointRepo :=
         [\<lparr>wp_id = ''a'', wp_index = 0, wp_longitude = 0, wp_latitude = 0,
           wp_name = None, wp_createdAt = 1\<rparr>,
          \<lparr>wp_id = ''b'', wp_index = 1, wp_longitude = 1, wp_latitude = 1,
           wp_name = None, wp_createdAt = 2\<rparr>]\<rparr>) \<and>
   (\<exists>p'. RoutePlanner_recalculate ((new_RoutePlanner DEFAULT_OPTIONS)
      \<lparr>waypointRepo :=
         [\<lparr>wp_id = ''a'', wp_index = 0, wp_longitude = 0, wp_latitude = 0,
           wp_name = None, wp_createdAt = 1\<rparr>,
          \<lparr>wp_id = ''b'', wp_index = 1, wp_longitude = 1, wp_latitude = 1,
           wp_name = None, wp_createdAt = 2\<rparr>]\<rparr>)
        \<lparr>env_new_id = ''c'', env_now = 3, env_provider = ProviderRaises ''timeout'',
         env_step_ids = (\<lambda>i. '''')\<rparr> = Inr p'
      \<and> RoutePlanner_getRoute p' = None
      \<and> RoutePlanner_getStats p' = None
      \<and> emitted p' = [RouteCalculating 2, RouteError ''timeout'' 2])"
proof -
  let ?p = "(new_RoutePlanner DEFAULT_OPTIONS)
      \<lparr>waypointRepo :=
         [\<lparr>wp_id = ''a'', wp_index = 0, wp_longitude = 0, wp_latitude = 0,
           wp_name = None, wp_createdAt = 1\<rparr>,
          \<lparr>wp_id = ''b'', wp_index = 1, wp_longitude = 1, wp_latitude = 1,
           wp_name = None, wp_createdAt = 2\<rparr>]\<rparr>"
  let ?ev = "\<lparr>env_new_id = ''c'', env_now = 3, env_provider = ProviderRaises ''timeout'',
         env_step_ids = (\<lambda>i. '''')\<rparr>"
  have a: "planner_invariant ?p"
    by (simp add: planner_invariant_def new_RoutePlanner_def)
  have b: "2 \<le> length (RoutePlanner_getWaypoints ?p)"
    by (simp add: RoutePlanner_getWaypoints_def WaypointRepository_getAll_def)
  have c: "env_provider ?ev = ProviderRaises ''timeout''
             \<or> env_provider ?ev = ProviderReturns None"
    by simp
  from C8_recalculate_failure [OF a b c] obtain p' where
    "RoutePlanner_recalculate ?p ?ev = Inr p'"
    "RoutePlanner_getRoute p' = RoutePlanner_getRoute ?p"
    "RoutePlanner_getStats p' = RoutePlanner_getStats ?p"
    "emitted p' = emitted ?p @
       [RouteCalculating (int (length (RoutePlanner_getWaypoints ?p))),
        RouteError (case env_provider ?ev of
                      ProviderRaises m \<Rightarrow> m
                    | ProviderReturns r \<Rightarrow> ''Failed to calculate directions'')
          (int (length (RoutePlanner_getWaypoints ?p)))]"
    by blast
  then have "RoutePlanner_recalculate ?p ?ev = Inr p'
      \<and> RoutePlanner_getRoute p' = None
      \<and> RoutePlanner_getStats p' = None
      \<and> emitted p' = [RouteCalculating 2, RouteError ''timeout'' 2]"
    by (simp add: new_RoutePlanner_def RoutePlanner_getRoute_def RoutePlanner_getStats_def
        RoutePlanner_getWaypoints_def WaypointRepository_getAll_def)
  with a show ?thesis by blast
qed

section \<open>Planner: undo after mutations\<close>

text \<open>
  Claim C1 does not hold of the code. On a new planner with the default options, one
  \<open>addWaypoint\<close> followed by one \<open>undo\<close> leaves the added waypoint in the store: the push
  made by \<open>addWaypoint\<close> puts the cursor at 0, \<open>canUndo\<close> asks for a cursor above 0, and
  \<open>undo\<close> returns \<open>false\<close> without touching the store. Before the call the store was empty.
\<close>

theorem C1_single_add_is_not_undone:
  "map_sum id RoutePlanner_getWaypoints
     (RoutePlanner_run (new_RoutePlanner DEFAULT_OPTIONS)
        [(AddWaypoint \<lparr>longitude = 0, latitude = 0\<rparr> None,
          \<lparr>env_new_id = ''a'', env_now = 1, env_provider = ProviderReturns None,
           env_step_ids = (\<lambda>i. '''')\<rparr>),
         (Undo,
          \<lparr>env_new_id = ''b'', env_now = 2, env_provider = ProviderReturns None,
           env_step_ids = (\<lambda>i. '''')\<rparr>)])
   = Inr [\<lparr>wp_id = ''a'', wp_index = 0, wp_longitude = 0, wp_latitude = 0,
           wp_name = None, wp_createdAt = 1\<rparr>]
   \<and> RoutePlanner_getWaypoints (new_RoutePlanner DEFAULT_OPTIONS) = []"
  by (simp add: new_RoutePlanner_def DEFAULT_OPTIONS_def new_HistoryManagerImpl_def
      returning_def RoutePlanner_addWaypoint_def RoutePlanner_undo_def
      HistoryManagerImpl_push_def HistoryManagerImpl_undo_def HistoryManagerImpl_canUndo_def
      WaypointRepository_add_def WaypointRepository_getAll_def RoutePlanner_getWaypoints_def
      auto_recalculate_def RoutePlanner_recalculate_def events_emit_def js_slice_empty Let_def)

text \<open>
  The same defect seen from the other side: after two \<open>addWaypoint\<close> calls a single
  \<open>undo\<close> empties the store, taking back both additions at once.
\<close>

lemma undo_after_two_adds:
  "map_sum id RoutePlanner_getWaypoints
     (RoutePlanner_run (new_RoutePlanner DEFAULT_OPTIONS)
        [(AddWaypoint \<lparr>longitude = 0, latitude = 0\<rparr> None,
          \<lparr>env_new_id = ''a'', env_now = 1, env_provider = ProviderReturns None,
           env_step_ids = (\<lambda>i. '''')\<rparr>),
         (AddWaypoint \<lparr>longitude = 1, latitude = 1\<rparr> None,
          \<lparr>env_new_id = ''b'', env_now = 2, env_provider = ProviderReturns None,
           env_step_ids = (\<lambda>i. '''')\<rparr>),
         (Undo,
          \<lparr>env_new_id = ''c'', env_now = 3, env_provider = ProviderReturns None,
           env_step_ids = (\<lambda>i. '''')\<rparr>)])
   = Inr []"
  by (simp add: new_RoutePlanner_def DEFAULT_OPTIONS_def new_HistoryManagerImpl_def
      returning_def RoutePlanner_addWaypoint_def RoutePlanner_undo_def
      HistoryManagerImpl_push_def HistoryManagerImpl_undo_def HistoryManagerImpl_canUndo_def
      HistoryManagerImpl_canRedo_def HistoryManagerImpl_getSize_def
      WaypointRepository_add_def WaypointRepository_getAll_def WaypointRepository_setAll_def
      RoutePlanner_getWaypoints_def RouteCalculatorAdapter_calculate_def
      auto_recalculate_def RoutePlanner_recalculate_def events_emit_def js_slice_empty
      js_slice_def js_nth_def enumerate_eq_zip Let_def)

section \<open>Planner: operations whose target is missing\<close>

lemma remove_unknown_id:
  assumes "\<not> disposed p" and "WaypointRepository_getById (waypointRepo p) ident = None"
  shows "RoutePlanner_removeWaypoint p ident ev = Inr ((), p)"
  using assms by (simp add: RoutePlanner_removeWaypoint_def)

lemma update_unknown_id:
  assumes "\<not> disposed p" and "WaypointRepository_getById (waypointRepo p) ident = None"
  shows "RoutePlanner_updateWaypoint p ident c ev = Inr ((), p)"
  using assms by (simp add: RoutePlanner_updateWaypoint_def)

lemma reorder_out_of_range:
  assumes "\<not> disposed p"
    and "fromIndex < 0 \<or> fromIndex \<ge> int (length (waypointRepo p))
         \<or> toIndex < 0 \<or> toIndex \<ge> int (length (waypointRepo p))"
  shows "RoutePlanner_reorderWaypoints p fromIndex toIndex ev =
           Inr ((), p\<lparr>rp_history := HistoryManagerImpl_push (rp_history p) (waypointRepo p)
                                      ActionReorder (env_now ev)\<rparr>)"
  using assms
  by (simp add: RoutePlanner_reorderWaypoints_def WaypointRepository_reorder_def
      WaypointRepository_getAll_def Let_def)

lemma push_appends_entry:
  assumes "1 \<le> maxSize h"
  shows "history (HistoryManagerImpl_push h ws action now) \<noteq> []
       \<and> last (history (HistoryManagerImpl_push h ws action now)) = entry_of (ws, action, now)"
proof -
  define pushed where
    "pushed = js_slice (history h) 0 (currentIndex h + 1) @ [entry_of (ws, action, now)]"
  have p: "pushed \<noteq> []" and l: "last pushed = entry_of (ws, action, now)"
    by (simp_all add: pushed_def)
  have lt: "length pushed - nat (maxSize h) < length pushed"
    using assms p by (cases pushed) simp_all
  have d: "drop (length pushed - nat (maxSize h)) pushed \<noteq> []"
    using lt by simp
  have "history (HistoryManagerImpl_push h ws action now)
      = (if int (length pushed) > maxSize h
         then drop (length pushed - nat (maxSize h)) pushed else pushed)"
    using assms
    by (simp add: HistoryManagerImpl_push_def Let_def pushed_def js_slice_from_suffix)
  then show ?thesis
    using p l d lt by (simp add: last_drop)
qed

text \<open>
  Claim C2 does not hold of the code for \<open>reorderWaypoints\<close>. On a new planner, which has
  no waypoints, \<open>reorderWaypoints(0, 5)\<close> is out of range: the store and the emitted
  events stay as they were, but the history has grown from 0 entries to 1, because the
  snapshot is pushed before the store's \<open>reorder\<close> is asked. (\<open>removeWaypoint\<close> and
  \<open>updateWaypoint\<close> look the id up first and leave the planner unchanged, as
  \<open>remove_unknown_id\<close> and \<open>update_unknown_id\<close> show.)
\<close>

theorem C2_failed_reorder_pushes_history:
  "map_sum id (\<lambda>(r, p'). (RoutePlanner_getHistorySize p', RoutePlanner_getWaypoints p', emitted p'))
     (RoutePlanner_reorderWaypoints (new_RoutePlanner DEFAULT_OPTIONS) 0 5
        \<lparr>env_new_id = ''a'', env_now = 1, env_provider = ProviderReturns None,
         env_step_ids = (\<lambda>i. '''')\<rparr>)
   = Inr (1, [], [])
   \<and> RoutePlanner_getHistorySize (new_RoutePlanner DEFAULT_OPTIONS) = 0"
  by (simp add: new_RoutePlanner_def DEFAULT_OPTIONS_def new_HistoryManagerImpl_def
      RoutePlanner_reorderWaypoints_def RoutePlanner_getHistorySize_def
      HistoryManagerImpl_getSize_def
      HistoryManagerImpl_push_def WaypointRepository_reorder_def
      WaypointRepository_getAll_def RoutePlanner_getWaypoints_def js_slice_empty Let_def)

end
